theory Spec2Isabelle
  imports Complex_Main
begin

section \<open>The progress notifier\<close>

text \<open>
  A shallow embedding of \<^verbatim>\<open>python/progress_notifier/__init__.py\<close>. The notifier object is
  a record; every method takes the record and returns the updated record, the external
  effects it performed, in order, and the exception that escaped it, if any (the fields
  that were assigned before the exception keep their new values, as the attributes of the
  Python object do). The outside world (the \<^verbatim>\<open>openclaw\<close> program, the gateway, the file system,
  the clock) answers through the record \<open>world\<close>; the clock reading \<^verbatim>\<open>time.time()\<close> is the
  parameter \<open>now\<close>, an idealised real number.
\<close>

subsection \<open>Python values\<close>

text \<open>Truth value of an optional string: \<^verbatim>\<open>None\<close> and the empty string are false.\<close>

definition truthy :: "string option \<Rightarrow> bool" where
  "truthy s = (case s of None \<Rightarrow> False | Some v \<Rightarrow> v \<noteq> [])"

text \<open>\<^verbatim>\<open>a or b\<close> on optional strings.\<close>

definition py_or :: "string option \<Rightarrow> string option \<Rightarrow> string option" where
  "py_or a b = (if truthy a then a else b)"

text \<open>\<^verbatim>\<open>needle in haystack\<close> on strings.\<close>

fun contains :: "string \<Rightarrow> string \<Rightarrow> bool" where
  "contains needle [] = (needle = [])"
| "contains needle (c # cs) =
     (take (length needle) (c # cs) = needle \<or> contains needle cs)"

text \<open>\<^verbatim>\<open>s.rstrip('/')\<close>.\<close>

definition rstrip_slash :: "string \<Rightarrow> string" where
  "rstrip_slash s = rev (dropWhile (\<lambda>c. c = CHR ''/'') (rev s))"

text \<open>
  \<^verbatim>\<open>_env(name, default)\<close>: the value of the environment variable, the default when it is
  unset or empty.
\<close>

definition getenv :: "(string \<rightharpoonup> string) \<Rightarrow> string \<Rightarrow> string option \<Rightarrow> string option" where
  "getenv environ name dflt =
     (case environ name of
        Some v \<Rightarrow> if v \<noteq> [] then Some v else dflt
      | None \<Rightarrow> dflt)"

subsection \<open>The notifier object\<close>

record notifier =
  interval_sec :: int
  plot_interval_sec :: int
  last_sent :: real
  last_plot_sent :: real
  channel :: "string option"
  target :: "string option"
  gateway_url :: "string option"
  gateway_token :: "string option"
  tested :: bool
  use_http :: bool
  cli_available :: bool

text \<open>
  \<^verbatim>\<open>__init__\<close>. \<open>which\<close> is \<^verbatim>\<open>shutil.which("openclaw") is not None\<close>.
\<close>

definition init :: "(string \<rightharpoonup> string) \<Rightarrow> bool \<Rightarrow> int \<Rightarrow> int option \<Rightarrow> notifier" where
  "init environ which interval plot_interval =
     \<lparr> interval_sec = interval,
       plot_interval_sec = (case plot_interval of Some p \<Rightarrow> p | None \<Rightarrow> interval),
       last_sent = 0,
       last_plot_sent = 0,
       channel = py_or (getenv environ ''OPENCLAW_PROGRESS_CHANNEL'' None)
                       (getenv environ ''OPENCLAW_DEFAULT_DM_CHANNEL'' None),
       target = py_or (getenv environ ''OPENCLAW_PROGRESS_TARGET'' None)
                      (getenv environ ''OPENCLAW_DEFAULT_DM_TARGET'' None),
       gateway_url = getenv environ ''OPENCLAW_GATEWAY_URL'' None,
       gateway_token = getenv environ ''OPENCLAW_GATEWAY_TOKEN'' None,
       tested = False,
       use_http = False,
       cli_available = which \<rparr>"

text \<open>
  The test \<^verbatim>\<open>if not self.channel or not self.target: return\<close> that opens \<^verbatim>\<open>send_now\<close>,
  \<^verbatim>\<open>maybe_send\<close> and the self-test: \<open>config_of\<close> is the channel and the target when both
  are present and non-empty.
\<close>

definition config_of :: "notifier \<Rightarrow> (string \<times> string) option" where
  "config_of n =
     (case (channel n, target n) of
        (Some c, Some t) \<Rightarrow> if c \<noteq> [] \<and> t \<noteq> [] then Some (c, t) else None
      | _ \<Rightarrow> None)"

definition configured :: "notifier \<Rightarrow> bool" where
  "configured n = (config_of n \<noteq> None)"

subsection \<open>The outside world and the effects\<close>

text \<open>
  What \<^verbatim>\<open>subprocess.run\<close> gives back: a completed process (return code, standard output,
  standard error) or an exception of class \<^verbatim>\<open>Exception\<close>, with its text.
\<close>

datatype run_result = Completed int string string | Raised string

datatype http_result = Answered | Failed

text \<open>
  The request built by \<^verbatim>\<open>_send_http\<close>: the URL, the payload dictionary in insertion order
  (its JSON encoding is not modelled) and the headers.
\<close>

record http_request =
  url :: string
  payload :: "(string \<times> string option) list"
  headers :: "(string \<times> string) list"

text \<open>
  The lines written to the error stream, by kind; the wording is not modelled, the values
  interpolated into it are.
\<close>

datatype diagnostic =
    NoChannelTarget
  | ChannelNotConfigured string
  | DryRunFailed string
  | CliTestFailed string
  | UsingHttpFallback string
  | NoDelivery

text \<open>
  The effects, in the order in which they happen: \<open>Probe\<close> is the call of \<^verbatim>\<open>subprocess.run\<close>
  in the self-test (the dry run), \<open>CliSend\<close> the call of \<^verbatim>\<open>subprocess.run\<close> in
  \<^verbatim>\<open>_send_message\<close>, \<open>HttpPost\<close> the call of \<^verbatim>\<open>urllib.request.urlopen\<close>, \<open>Diag\<close> a line on
  the error stream. An effect is recorded when the call is made, whether it then fails or
  not.
\<close>

datatype event =
    Probe "string list"
  | CliSend "string list"
  | HttpPost http_request
  | Diag diagnostic

record world =
  subprocess_run :: "string list \<Rightarrow> run_result"
  urlopen :: "http_request \<Rightarrow> http_result"
  request_ok :: "string \<Rightarrow> bool"
  isfile :: "string \<Rightarrow> bool"
  abspath :: "string \<Rightarrow> string"

text \<open>
  \<open>request_ok w u\<close> says that \<^verbatim>\<open>urllib.request.Request(u, ...)\<close> builds the request; the
  constructor raises \<^verbatim>\<open>ValueError\<close> (unknown url type) when the URL has no scheme. The
  function \<open>url_has_scheme\<close> is that test as the standard library makes it: \<^verbatim>\<open>unwrap\<close> strips
  blanks, an enclosing \<^verbatim>\<open><...>\<close> and a leading \<^verbatim>\<open>URL:\<close>; the fragment after the last \<^verbatim>\<open>#\<close> is
  split off; what is left must start with one or more characters other than \<^verbatim>\<open>/\<close> and
  \<^verbatim>\<open>:\<close>, followed by a colon. Strings are byte strings here, so \<open>py_strip\<close> knows the ASCII
  blanks only.
\<close>

definition is_space :: "char \<Rightarrow> bool" where
  "is_space c =
     (let k = (of_char c :: nat) in (9 \<le> k \<and> k \<le> 13) \<or> (28 \<le> k \<and> k \<le> 32))"

definition py_strip :: "string \<Rightarrow> string" where
  "py_strip s = rev (dropWhile is_space (rev (dropWhile is_space s)))"

definition unwrap :: "string \<Rightarrow> string" where
  "unwrap u =
     (let v = py_strip u;
          v = (if take 1 v = ''<'' \<and> take 1 (rev v) = ''>'' then py_strip (butlast (tl v))
               else v)
      in if take 4 v = ''URL:'' then py_strip (drop 4 v) else v)"

definition splittag :: "string \<Rightarrow> string" where
  "splittag v =
     (if CHR ''#'' \<in> set v then rev (tl (dropWhile (\<lambda>c. c \<noteq> CHR ''#'') (rev v))) else v)"

definition url_has_scheme :: "string \<Rightarrow> bool" where
  "url_has_scheme u =
     (let v = splittag (unwrap u);
          p = takeWhile (\<lambda>c. c \<noteq> CHR ''/'' \<and> c \<noteq> CHR '':'') v
      in p \<noteq> [] \<and> take 1 (drop (length p) v) = '':'')"

text \<open>
  The text of that \<^verbatim>\<open>ValueError\<close> is \<^verbatim>\<open>"unknown url type: %r" % self.full_url\<close>: the
  unwrapped URL, without an empty fragment, between the quotes of \<^verbatim>\<open>repr\<close> (whose escapes
  for quotes, backslashes and unprintable characters are not modelled).
\<close>

definition full_url :: "string \<Rightarrow> string" where
  "full_url u =
     (let v = unwrap u in if v \<noteq> [] \<and> last v = CHR ''#'' then butlast v else v)"

definition py_repr :: "string \<Rightarrow> string" where
  "py_repr s = [CHR 0x27] @ s @ [CHR 0x27]"

datatype exn = ValueError string

type_synonym outcome = "notifier \<times> event list \<times> exn option"

definition state_of :: "outcome \<Rightarrow> notifier" where
  "state_of r = fst r"

definition trace_of :: "outcome \<Rightarrow> event list" where
  "trace_of r = fst (snd r)"

definition raised_of :: "outcome \<Rightarrow> exn option" where
  "raised_of r = snd (snd r)"

text \<open>A dispatch is a send through one of the two delivery paths.\<close>

fun is_dispatch :: "event \<Rightarrow> bool" where
  "is_dispatch (CliSend _) = True"
| "is_dispatch (HttpPost _) = True"
| "is_dispatch _ = False"

fun is_probe :: "event \<Rightarrow> bool" where
  "is_probe (Probe _) = True"
| "is_probe _ = False"

definition dispatches :: "event list \<Rightarrow> event list" where
  "dispatches tr = filter is_dispatch tr"

definition probes :: "event list \<Rightarrow> event list" where
  "probes tr = filter is_probe tr"

subsection \<open>The self-test\<close>

text \<open>The message of the dry run starts with the bell emoji, here its four UTF-8 bytes.\<close>

definition probe_message :: string where
  "probe_message =
     [CHR 0xF0, CHR 0x9F, CHR 0x94, CHR 0x94] @ '' Progress notifier connected.''"

definition probe_args :: "string \<Rightarrow> string \<Rightarrow> string list" where
  "probe_args c t =
     [''openclaw'', ''message'', ''send'', ''--channel'', c, ''--target'', t,
      ''--message'', probe_message, ''--dry-run'']"

text \<open>
  The \<^verbatim>\<open>try\<close> block of \<^verbatim>\<open>_selftest\<close>, entered when the program was found: the first
  component says that the method returned from inside the block (the dry run succeeded);
  otherwise \<^verbatim>\<open>_use_http\<close> has been set after the block. \<open>probe_diag\<close> is the warning
  printed for a dry run that ended with a non-zero return code.
\<close>

definition probe_diag :: "string \<Rightarrow> string \<Rightarrow> string \<Rightarrow> diagnostic" where
  "probe_diag c out err =
     (if contains ''Unknown channel'' (err @ out) then ChannelNotConfigured c
      else DryRunFailed (take 200 (if err \<noteq> [] then err else out)))"

definition selftest_cli :: "world \<Rightarrow> notifier \<Rightarrow> string \<Rightarrow> string \<Rightarrow> bool \<times> notifier \<times> event list" where
  "selftest_cli w n c t =
     (let args = probe_args c t in
      case subprocess_run w args of
        Completed rc out err \<Rightarrow>
          if rc = 0 then (True, n, [Probe args])
          else (False, n\<lparr>use_http := True\<rparr>, [Probe args, Diag (probe_diag c out err)])
      | Raised e \<Rightarrow>
          (False, n\<lparr>use_http := True\<rparr>, [Probe args, Diag (CliTestFailed e)]))"

text \<open>
  The end of \<^verbatim>\<open>_selftest\<close>, from \<^verbatim>\<open>if not self._cli_available\<close> on. \<open>fallback_diag\<close> is
  the line printed under \<^verbatim>\<open>if self._use_http\<close>.
\<close>

definition fallback_diag :: "notifier \<Rightarrow> diagnostic" where
  "fallback_diag n =
     (case gateway_url n of
        Some u \<Rightarrow> if u \<noteq> [] \<and> truthy (gateway_token n) then UsingHttpFallback u
                   else NoDelivery
      | None \<Rightarrow> NoDelivery)"

definition selftest_http :: "notifier \<Rightarrow> notifier \<times> event list" where
  "selftest_http n =
     (let n = (if \<not> cli_available n then n\<lparr>use_http := True\<rparr> else n) in
      if use_http n then (n, [Diag (fallback_diag n)]) else (n, []))"

definition selftest :: "world \<Rightarrow> notifier \<Rightarrow> notifier \<times> event list" where
  "selftest w n =
     (if tested n then (n, [])
      else
        let n = n\<lparr>tested := True\<rparr> in
        case config_of n of
          None \<Rightarrow> (n, [Diag NoChannelTarget])
        | Some (c, t) \<Rightarrow>
            let (finished, n, ev) =
                  (if cli_available n then selftest_cli w n c t else (False, n, []))
            in if finished then (n, ev)
               else let (n, ev') = selftest_http n in (n, ev @ ev'))"

subsection \<open>The dispatcher\<close>

text \<open>
  The request object of \<^verbatim>\<open>_send_http\<close>, for gateway URL \<open>u\<close> and token \<open>k\<close>: the media
  path enters the payload only when it names an existing file.
\<close>

definition build_request ::
  "world \<Rightarrow> string option \<Rightarrow> string option \<Rightarrow> string \<Rightarrow> string \<Rightarrow> string \<Rightarrow> string option \<Rightarrow>
   http_request" where
  "build_request w chan targ u k message media_path =
     \<lparr> url = rstrip_slash u @ ''/api/v1/message/send'',
       payload = [(''channel'', chan), (''target'', targ), (''message'', Some message)]
                 @ (case media_path of
                      Some p \<Rightarrow>
                        if p \<noteq> [] \<and> isfile w p then [(''mediaPath'', Some (abspath w p))]
                        else []
                    | None \<Rightarrow> []),
       headers = [(''Content-Type'', ''application/json''),
                  (''Authorization'', ''Bearer '' @ k)] \<rparr>"

text \<open>
  \<^verbatim>\<open>_send_http\<close>. The request is built before the \<^verbatim>\<open>try\<close>, so the \<^verbatim>\<open>ValueError\<close> of its
  constructor escapes; whatever \<^verbatim>\<open>urlopen\<close> does is caught.
\<close>

definition send_http :: "world \<Rightarrow> notifier \<Rightarrow> string \<Rightarrow> string option \<Rightarrow> outcome" where
  "send_http w n message media_path =
     (case (gateway_url n, gateway_token n) of
        (Some u, Some k) \<Rightarrow>
          if u = [] \<or> k = [] then (n, [], None)
          else
            let req = build_request w (channel n) (target n) u k message media_path
            in if \<not> request_ok w (url req)
               then (n, [], Some (ValueError (''unknown url type: '' @ py_repr (full_url (url req)))))
               else (case urlopen w req of
                       Answered \<Rightarrow> (n, [HttpPost req], None)
                     | Failed \<Rightarrow> (n, [HttpPost req], None))
      | _ \<Rightarrow> (n, [], None))"

text \<open>The loop of \<^verbatim>\<open>_send_message\<close> that finds the message in the argument list.\<close>

fun extract_message :: "string list \<Rightarrow> string" where
  "extract_message (a # b # rest) =
     (if a = ''--message'' then b else extract_message (b # rest))"
| "extract_message _ = []"

definition send_message :: "world \<Rightarrow> notifier \<Rightarrow> string list \<Rightarrow> string option \<Rightarrow> outcome" where
  "send_message w n args media_path =
     (let (n, ev) = selftest w n in
      if use_http n then
        (let msg = extract_message args;
             (n, ev', ex) = send_http w n msg media_path
         in (n, ev @ ev', ex))
      else (case subprocess_run w args of
              Completed rc out err \<Rightarrow> (n, ev @ [CliSend args], None)
            | Raised e \<Rightarrow> (n, ev @ [CliSend args], None)))"

subsection \<open>Sending\<close>

definition openclaw_cmd :: "string \<Rightarrow> string \<Rightarrow> string \<Rightarrow> string list" where
  "openclaw_cmd c t message =
     [''openclaw'', ''message'', ''send'', ''--channel'', c, ''--target'', t,
      ''--message'', message]"

text \<open>
  \<^verbatim>\<open>send_now\<close> and \<^verbatim>\<open>maybe_send\<close>, with the dispatcher \<^verbatim>\<open>self._send_message\<close> as the
  parameter \<open>dispatch\<close> and the plain \<^verbatim>\<open>return\<close> as \<open>ret\<close>, so that the calls they make to the
  dispatcher can be told apart from what the dispatcher does.
\<close>

definition send_now_with ::
  "(notifier \<Rightarrow> string list \<Rightarrow> string option \<Rightarrow> 'r) \<Rightarrow> (notifier \<Rightarrow> 'r) \<Rightarrow>
   notifier \<Rightarrow> string \<Rightarrow> string option \<Rightarrow> 'r" where
  "send_now_with dispatch ret n message plot_path =
     (case config_of n of
        None \<Rightarrow> ret n
      | Some (c, t) \<Rightarrow>
          let cmd = openclaw_cmd c t message;
              cmd = (if truthy plot_path then cmd @ [''--media'', the plot_path] else cmd)
          in dispatch n cmd plot_path)"

definition text_due :: "notifier \<Rightarrow> real \<Rightarrow> bool" where
  "text_due n now = (now - last_sent n \<ge> real_of_int (interval_sec n))"

definition plot_due :: "notifier \<Rightarrow> real \<Rightarrow> string option \<Rightarrow> bool" where
  "plot_due n now plot_path =
     (truthy plot_path \<and> now - last_plot_sent n \<ge> real_of_int (plot_interval_sec n))"

definition maybe_send_with ::
  "(notifier \<Rightarrow> string list \<Rightarrow> string option \<Rightarrow> 'r) \<Rightarrow> (notifier \<Rightarrow> 'r) \<Rightarrow>
   notifier \<Rightarrow> real \<Rightarrow> string \<Rightarrow> string option \<Rightarrow> 'r" where
  "maybe_send_with dispatch ret n now message plot_path =
     (case config_of n of
        None \<Rightarrow> ret n
      | Some (c, t) \<Rightarrow>
          let send_text = text_due n now;
              send_plot = plot_due n now plot_path
          in if send_text \<and> \<not> send_plot then
               dispatch (n\<lparr>last_sent := now\<rparr>) (openclaw_cmd c t message) None
             else if send_text \<and> send_plot then
               dispatch (n\<lparr>last_sent := now, last_plot_sent := now\<rparr>)
                 (openclaw_cmd c t message @ [''--media'', the plot_path]) plot_path
             else if send_plot then
               dispatch (n\<lparr>last_plot_sent := now\<rparr>)
                 (openclaw_cmd c t message @ [''--media'', the plot_path]) plot_path
             else ret n)"

definition returned :: "notifier \<Rightarrow> outcome" where
  "returned n = (n, [], None)"

definition send_now :: "world \<Rightarrow> notifier \<Rightarrow> string \<Rightarrow> string option \<Rightarrow> outcome" where
  "send_now w = send_now_with (send_message w) returned"

definition maybe_send :: "world \<Rightarrow> notifier \<Rightarrow> real \<Rightarrow> string \<Rightarrow> string option \<Rightarrow> outcome" where
  "maybe_send w = maybe_send_with (send_message w) returned"

text \<open>
  The calls made to the dispatcher: the dispatcher replaced by one that only records its
  arguments (what a mock of \<^verbatim>\<open>_send_message\<close> would see).
\<close>

type_synonym dispatch_call = "string list \<times> string option"

definition record_call :: "notifier \<Rightarrow> string list \<Rightarrow> string option \<Rightarrow> notifier \<times> dispatch_call list" where
  "record_call n args media_path = (n, [(args, media_path)])"

definition no_call :: "notifier \<Rightarrow> notifier \<times> dispatch_call list" where
  "no_call n = (n, [])"

definition send_now_calls :: "notifier \<Rightarrow> string \<Rightarrow> string option \<Rightarrow> dispatch_call list" where
  "send_now_calls n message plot_path =
     snd (send_now_with record_call no_call n message plot_path)"

definition maybe_send_calls :: "notifier \<Rightarrow> real \<Rightarrow> string \<Rightarrow> string option \<Rightarrow> dispatch_call list" where
  "maybe_send_calls n now message plot_path =
     snd (maybe_send_with record_call no_call n now message plot_path)"

text \<open>
  The delivery path in use once the self-test has run: the value of \<^verbatim>\<open>_use_http\<close> that
  \<^verbatim>\<open>_send_message\<close> reads.
\<close>

definition http_selected :: "world \<Rightarrow> notifier \<Rightarrow> bool" where
  "http_selected w n = use_http (fst (selftest w n))"

subsection \<open>Sequences of calls\<close>

text \<open>
  The life of a notifier: a sequence of calls of its two public methods, each answered by
  the world as it is at that moment. A caller that catches an exception goes on with the
  same object, so the sequence continues after a call that raised.
\<close>

datatype call = SendNow string "string option" | MaybeSend real string "string option"

fun run_call :: "world \<Rightarrow> notifier \<Rightarrow> call \<Rightarrow> outcome" where
  "run_call w n (SendNow message plot_path) = send_now w n message plot_path"
| "run_call w n (MaybeSend now message plot_path) = maybe_send w n now message plot_path"

fun dispatcher_calls :: "notifier \<Rightarrow> call \<Rightarrow> dispatch_call list" where
  "dispatcher_calls n (SendNow message plot_path) = send_now_calls n message plot_path"
| "dispatcher_calls n (MaybeSend now message plot_path) =
     maybe_send_calls n now message plot_path"

fun run_calls :: "notifier \<Rightarrow> (world \<times> call) list \<Rightarrow> notifier \<times> event list" where
  "run_calls n [] = (n, [])"
| "run_calls n ((w, c) # cs) =
     (let r = run_call w n c;
          (n', tr) = run_calls (state_of r) cs
      in (n', trace_of r @ tr))"

section \<open>The process wrapper and the channel classification\<close>




text \<open>
  Modelled from the spec: \<^verbatim>\<open>_detect_channel_type\<close> is imported by the tests but is not in
  the module under \<^verbatim>\<open>src/\<close>. The spec (4.6): a static classification table, telegram is
  table; discord, slack and whatsapp are rich; signal and imessage are plain; an unknown
  or absent channel is rich.
\<close>

datatype channel_style = Rich | Table | Plain

definition detect_channel_type :: "string option \<Rightarrow> channel_style" where
  "detect_channel_type chan =
     (case chan of
        None \<Rightarrow> Rich
      | Some c \<Rightarrow>
          if c = ''telegram'' then Table
          else if c = ''discord'' \<or> c = ''slack'' \<or> c = ''whatsapp'' then Rich
          else if c = ''signal'' \<or> c = ''imessage'' then Plain
          else Rich)"

section \<open>Concrete inputs\<close>

text \<open>
  A world in which the \<^verbatim>\<open>openclaw\<close> program succeeds, the gateway answers, every path
  names a file and the request constructor applies the scheme test of the standard
  library.
\<close>

definition demo_world :: world where
  "demo_world =
     \<lparr> subprocess_run = (\<lambda>args. Completed 0 [] []),
       urlopen = (\<lambda>req. Answered),
       request_ok = url_has_scheme,
       isfile = (\<lambda>p. True),
       abspath = (\<lambda>p. p) \<rparr>"

text \<open>
  Notifiers as the constructor builds them: on a machine with the \<^verbatim>\<open>openclaw\<close> program;
  on a node without it and with a gateway; on such a node with a gateway URL that has no
  scheme. \<open>failing_world\<close> is a world in which the program cannot be spawned, the gateway
  does not answer and no path names a file.
\<close>

definition cli_notifier :: notifier where
  "cli_notifier =
     init [''OPENCLAW_PROGRESS_CHANNEL'' \<mapsto> ''discord'',
           ''OPENCLAW_PROGRESS_TARGET'' \<mapsto> ''channel:123''] True 0 (Some 9999)"

definition http_notifier :: notifier where
  "http_notifier =
     init [''OPENCLAW_PROGRESS_CHANNEL'' \<mapsto> ''discord'',
           ''OPENCLAW_PROGRESS_TARGET'' \<mapsto> ''channel:123'',
           ''OPENCLAW_GATEWAY_URL'' \<mapsto> ''http://192.168.1.94:18789/'',
           ''OPENCLAW_GATEWAY_TOKEN'' \<mapsto> ''secret''] False 0 (Some 9999)"

definition schemeless_notifier :: notifier where
  "schemeless_notifier =
     init [''OPENCLAW_PROGRESS_CHANNEL'' \<mapsto> ''discord'',
           ''OPENCLAW_PROGRESS_TARGET'' \<mapsto> ''channel:123'',
           ''OPENCLAW_GATEWAY_URL'' \<mapsto> ''gateway.local'',
           ''OPENCLAW_GATEWAY_TOKEN'' \<mapsto> ''secret''] False 300 None"

definition failing_world :: world where
  "failing_world =
     \<lparr> subprocess_run = (\<lambda>args. Raised ''[Errno 2] No such file or directory''),
       urlopen = (\<lambda>req. Failed),
       request_ok = url_has_scheme,
       isfile = (\<lambda>p. False),
       abspath = (\<lambda>p. p) \<rparr>"

text \<open>
  A notifier built with an empty channel variable; a notifier that sent a text at time
  5000 with an interval of 9999 seconds; a fresh one with an interval of 300 seconds.
\<close>

definition unconfigured_notifier :: notifier where
  "unconfigured_notifier =
     init [''OPENCLAW_PROGRESS_TARGET'' \<mapsto> ''channel:123'',
           ''OPENCLAW_PROGRESS_CHANNEL'' \<mapsto> []] True 0 None"

definition throttled_notifier :: notifier where
  "throttled_notifier = cli_notifier\<lparr>interval_sec := 9999, last_sent := 5000\<rparr>"

definition slow_notifier :: notifier where
  "slow_notifier =
     init [''OPENCLAW_PROGRESS_CHANNEL'' \<mapsto> ''discord'',
           ''OPENCLAW_PROGRESS_TARGET'' \<mapsto> ''channel:123''] True 300 None"

text \<open>
  A notifier on a node without the program and without a gateway (silent mode); a notifier
  whose plot interval is longer than the clock reading; a world in which no path names a
  file; the gateway notifier after a text sent at time 5000 with an interval of 9999
  seconds.
\<close>

definition silent_notifier :: notifier where
  "silent_notifier =
     init [''OPENCLAW_PROGRESS_CHANNEL'' \<mapsto> ''discord'',
           ''OPENCLAW_PROGRESS_TARGET'' \<mapsto> ''channel:123''] False 0 (Some 9999)"

definition long_interval_notifier :: notifier where
  "long_interval_notifier =
     init [''OPENCLAW_PROGRESS_CHANNEL'' \<mapsto> ''discord'',
           ''OPENCLAW_PROGRESS_TARGET'' \<mapsto> ''channel:123''] True 0 (Some 2000000000)"

definition missing_file_world :: world where
  "missing_file_world = demo_world\<lparr>isfile := (\<lambda>p. False)\<rparr>"

definition throttled_http_notifier :: notifier where
  "throttled_http_notifier = http_notifier\<lparr>interval_sec := 9999, last_sent := 5000\<rparr>"

section \<open>Properties\<close>

subsection \<open>The self-test\<close>

lemma selftest_tested: "tested n \<Longrightarrow> selftest w n = (n, [])"
  by (simp add: selftest_def)

lemma selftest_cli_cases:
  "selftest_cli w n c t = (True, n, [Probe (probe_args c t)]) \<or>
   (\<exists>d. selftest_cli w n c t = (False, n\<lparr>use_http := True\<rparr>, [Probe (probe_args c t), Diag d]))"
  unfolding selftest_cli_def Let_def
  by (cases "subprocess_run w (probe_args c t)") auto

lemma selftest_http_cases:
  "(selftest_http n = (n, []) \<and> cli_available n \<and> \<not> use_http n) \<or>
   (\<exists>d. selftest_http n = (n\<lparr>use_http := True\<rparr>, [Diag d]))"
proof (cases "cli_available n")
  case False
  then show ?thesis by (simp add: selftest_http_def Let_def)
next
  case avail: True
  show ?thesis
  proof (cases "use_http n")
    case False
    with avail show ?thesis by (simp add: selftest_http_def)
  next
    case True
    then have "n\<lparr>use_http := True\<rparr> = n" by simp
    moreover from avail True have "\<exists>d. selftest_http n = (n, [Diag d])"
      by (simp add: selftest_http_def)
    ultimately show ?thesis by simp
  qed
qed

lemma selftest_untested:
  assumes "\<not> tested n"
  shows "fst (selftest w n) = n\<lparr>tested := True, use_http := use_http (fst (selftest w n))\<rparr> \<and>
   dispatches (snd (selftest w n)) = [] \<and>
   length (probes (snd (selftest w n))) \<le> 1"
proof -
  define m where "m = n\<lparr>tested := True\<rparr>"
  have cm: "config_of (n\<lparr>tested := True\<rparr>) = config_of n" by (simp add: config_of_def)
  show ?thesis
  proof (cases "config_of n")
    case None
    with assms cm have "selftest w n = (m, [Diag NoChannelTarget])"
      by (simp add: selftest_def m_def Let_def)
    then show ?thesis by (simp add: dispatches_def probes_def m_def)
  next
    case (Some ct)
    obtain c t where ct: "ct = (c, t)" by (cases ct)
    show ?thesis
    proof (cases "cli_available n")
      case False
      with assms Some ct cm have "selftest w n = (let (k, ev') = selftest_http m in (k, ev'))"
        by (simp add: selftest_def m_def Let_def)
      moreover from False have "\<exists>d. selftest_http m = (m\<lparr>use_http := True\<rparr>, [Diag d])"
        by (simp add: selftest_http_def Let_def m_def)
      ultimately show ?thesis by (auto simp: dispatches_def probes_def m_def)
    next
      case True
      with assms Some ct cm have st: "selftest w n =
          (let (fin, k, ev) = selftest_cli w m c t
            in if fin then (k, ev) else let (k, ev') = selftest_http k in (k, ev @ ev'))"
        by (simp add: selftest_def m_def Let_def)
      from selftest_cli_cases [of w m c t] show ?thesis
      proof
        assume "selftest_cli w m c t = (True, m, [Probe (probe_args c t)])"
        with st show ?thesis by (simp add: dispatches_def probes_def m_def)
      next
        assume "\<exists>d. selftest_cli w m c t = (False, m\<lparr>use_http := True\<rparr>, [Probe (probe_args c t), Diag d])"
        then obtain d where d: "selftest_cli w m c t = (False, m\<lparr>use_http := True\<rparr>, [Probe (probe_args c t), Diag d])" ..
        have "selftest_http (m\<lparr>use_http := True\<rparr>) = (m\<lparr>use_http := True\<rparr>, [Diag (fallback_diag (m\<lparr>use_http := True\<rparr>))])"
          by (simp add: selftest_http_def Let_def)
        with st d show ?thesis by (simp add: dispatches_def probes_def m_def)
      qed
    qed
  qed
qed


lemma selftest_state:
  "fst (selftest w n) = n\<lparr>tested := True, use_http := http_selected w n\<rparr>"
proof (cases "tested n")
  case True
  then show ?thesis by (simp add: selftest_tested http_selected_def)
next
  case False
  then show ?thesis unfolding http_selected_def using selftest_untested [of n w] by blast
qed

lemma selftest_no_dispatch: "dispatches (snd (selftest w n)) = []"
proof (cases "tested n")
  case True
  then show ?thesis by (simp add: selftest_tested dispatches_def)
next
  case False
  then show ?thesis using selftest_untested [of n w] by blast
qed

lemma selftest_probes: "length (probes (snd (selftest w n))) \<le> (if tested n then 0 else 1)"
proof (cases "tested n")
  case True
  then show ?thesis by (simp add: selftest_tested probes_def)
next
  case False
  then show ?thesis using selftest_untested [of n w] by simp
qed

lemma config_of_update [simp]:
  "config_of (n\<lparr>tested := x\<rparr>) = config_of n"
  "config_of (n\<lparr>use_http := x\<rparr>) = config_of n"
  "config_of (n\<lparr>last_sent := a\<rparr>) = config_of n"
  "config_of (n\<lparr>last_plot_sent := a\<rparr>) = config_of n"
  by (simp_all add: config_of_def)

lemma fallback_diag_update [simp]:
  "fallback_diag (n\<lparr>tested := x\<rparr>) = fallback_diag n"
  "fallback_diag (n\<lparr>use_http := x\<rparr>) = fallback_diag n"
  "fallback_diag (n\<lparr>last_sent := a\<rparr>) = fallback_diag n"
  "fallback_diag (n\<lparr>last_plot_sent := a\<rparr>) = fallback_diag n"
  by (simp_all add: fallback_diag_def cong: option.case_cong if_cong)

lemma selftest_stamp:
  "selftest w (n\<lparr>last_sent := a, last_plot_sent := b\<rparr>) =
     ((fst (selftest w n))\<lparr>last_sent := a, last_plot_sent := b\<rparr>, snd (selftest w n))"
proof (cases "tested n")
  case True
  then show ?thesis by (simp add: selftest_def)
next
  case untested: False
  show ?thesis
  proof (cases "config_of n")
    case None
    with untested show ?thesis by (simp add: selftest_def Let_def)
  next
    case (Some ct)
    obtain c t where ct: "ct = (c, t)" by (cases ct)
    show ?thesis
    proof (cases "cli_available n")
      case False
      with untested Some ct show ?thesis
        by (simp add: selftest_def selftest_http_def Let_def)
    next
      case True
      show ?thesis
      proof (cases "subprocess_run w (probe_args c t)")
        case (Completed rc out err)
        with untested Some ct True show ?thesis
          by (simp add: selftest_def selftest_cli_def selftest_http_def Let_def)
      next
        case (Raised e)
        with untested Some ct True show ?thesis
          by (simp add: selftest_def selftest_cli_def selftest_http_def Let_def)
      qed
    qed
  qed
qed


lemma http_selected_stamp [simp]:
  "http_selected w (n\<lparr>last_sent := a, last_plot_sent := b\<rparr>) = http_selected w n"
  by (simp add: http_selected_def selftest_stamp)

lemma http_selected_last_sent [simp]:
  "http_selected w (n\<lparr>last_sent := a\<rparr>) = http_selected w n"
  using http_selected_stamp [where w = w and n = n and a = a and b = "last_plot_sent n"] by simp

lemma http_selected_last_plot_sent [simp]:
  "http_selected w (n\<lparr>last_plot_sent := b\<rparr>) = http_selected w n"
  using http_selected_stamp [where w = w and n = n and a = "last_sent n" and b = b] by simp

lemma http_selected_tested: "tested n \<Longrightarrow> http_selected w n = use_http n"
  by (simp add: http_selected_def selftest_tested)

subsection \<open>The dispatcher\<close>

lemma send_http_state: "fst (send_http w n message media_path) = n"
  by (simp add: send_http_def Let_def split: option.splits http_result.splits)

lemma send_http_frame:
  "snd (send_http w (n\<lparr>tested := x, use_http := y\<rparr>) message media_path) =
   snd (send_http w n message media_path)"
  by (simp add: send_http_def Let_def split: option.splits http_result.splits)

lemma send_http_stamp:
  "snd (send_http w (n\<lparr>last_sent := a, last_plot_sent := b\<rparr>) message media_path) =
   snd (send_http w n message media_path)"
  by (simp add: send_http_def Let_def split: option.splits http_result.splits)

lemma send_http_trace:
  "fst (snd (send_http w n message media_path)) = [] \<or>
   (\<exists>req. fst (snd (send_http w n message media_path)) = [HttpPost req])"
  by (simp add: send_http_def Let_def split: option.splits http_result.splits)

lemma send_http_sent:
  assumes "gateway_url n = Some u" "u \<noteq> []" "gateway_token n = Some k" "k \<noteq> []"
    and "request_ok w (rstrip_slash u @ ''/api/v1/message/send'')"
  shows "send_http w n message media_path =
         (n, [HttpPost (build_request w (channel n) (target n) u k message media_path)], None)"
proof -
  have "url (build_request w (channel n) (target n) u k message media_path) =
        rstrip_slash u @ ''/api/v1/message/send''"
    by (simp add: build_request_def)
  with assms show ?thesis
    by (simp add: send_http_def Let_def split: http_result.splits)
qed

lemma send_http_silent:
  assumes "\<not> (truthy (gateway_url n) \<and> truthy (gateway_token n))"
  shows "send_http w n message media_path = (n, [], None)"
  using assms by (auto simp: send_http_def truthy_def split: option.splits)

lemma send_message_unfold:
  "send_message w n args media_path =
     (if http_selected w n
      then (n\<lparr>tested := True, use_http := True\<rparr>,
            snd (selftest w n) @ fst (snd (send_http w n (extract_message args) media_path)),
            snd (snd (send_http w n (extract_message args) media_path)))
      else (n\<lparr>tested := True, use_http := False\<rparr>, snd (selftest w n) @ [CliSend args], None))"
proof -
  obtain m ev where s: "selftest w n = (m, ev)" by (cases "selftest w n")
  with selftest_state [of w n] have m: "m = n\<lparr>tested := True, use_http := http_selected w n\<rparr>"
    by simp
  show ?thesis
  proof (cases "http_selected w n")
    case True
    obtain k ev' ex where h: "send_http w m (extract_message args) media_path = (k, ev', ex)"
      by (cases "send_http w m (extract_message args) media_path")
    from h send_http_state [of w m] have k: "k = m" by (metis fst_conv)
    from h m True send_http_frame [where w = w and n = n and x = True and y = True and message = "extract_message args" and media_path = media_path]
    have "snd (send_http w n (extract_message args) media_path) = (ev', ex)" by simp
    with s m True h k show ?thesis by (simp add: send_message_def)
  next
    case False
    with s m show ?thesis
      by (simp add: send_message_def split: run_result.splits)
  qed
qed

lemma send_message_stamp:
  "send_message w (n\<lparr>last_sent := a, last_plot_sent := b\<rparr>) args media_path =
     ((state_of (send_message w n args media_path))\<lparr>last_sent := a, last_plot_sent := b\<rparr>,
      trace_of (send_message w n args media_path),
      raised_of (send_message w n args media_path))"
  by (simp add: send_message_unfold selftest_stamp send_http_stamp state_of_def trace_of_def
      raised_of_def)

lemma send_message_last_sent:
  "send_message w (n\<lparr>last_sent := a\<rparr>) args media_path =
     ((state_of (send_message w n args media_path))\<lparr>last_sent := a\<rparr>,
      trace_of (send_message w n args media_path),
      raised_of (send_message w n args media_path))"
proof -
  have "n\<lparr>last_sent := a\<rparr> = n\<lparr>last_sent := a, last_plot_sent := last_plot_sent n\<rparr>" by simp
  then have "send_message w (n\<lparr>last_sent := a\<rparr>) args media_path =
    send_message w (n\<lparr>last_sent := a, last_plot_sent := last_plot_sent n\<rparr>) args media_path"
    by simp
  also have "\<dots> = ((state_of (send_message w n args media_path))\<lparr>last_sent := a, last_plot_sent := last_plot_sent n\<rparr>,
      trace_of (send_message w n args media_path),
      raised_of (send_message w n args media_path))"
    by (rule send_message_stamp)
  also have "(state_of (send_message w n args media_path))\<lparr>last_sent := a, last_plot_sent := last_plot_sent n\<rparr>
     = (state_of (send_message w n args media_path))\<lparr>last_sent := a\<rparr>"
    by (simp add: send_message_unfold state_of_def)
  finally show ?thesis .
qed

lemma send_message_last_plot_sent:
  "send_message w (n\<lparr>last_plot_sent := b\<rparr>) args media_path =
     ((state_of (send_message w n args media_path))\<lparr>last_plot_sent := b\<rparr>,
      trace_of (send_message w n args media_path),
      raised_of (send_message w n args media_path))"
proof -
  have "n\<lparr>last_plot_sent := b\<rparr> = n\<lparr>last_sent := last_sent n, last_plot_sent := b\<rparr>" by simp
  then have "send_message w (n\<lparr>last_plot_sent := b\<rparr>) args media_path =
    send_message w (n\<lparr>last_sent := last_sent n, last_plot_sent := b\<rparr>) args media_path"
    by simp
  also have "\<dots> = ((state_of (send_message w n args media_path))\<lparr>last_sent := last_sent n, last_plot_sent := b\<rparr>,
      trace_of (send_message w n args media_path),
      raised_of (send_message w n args media_path))"
    by (rule send_message_stamp)
  also have "(state_of (send_message w n args media_path))\<lparr>last_sent := last_sent n, last_plot_sent := b\<rparr>
     = (state_of (send_message w n args media_path))\<lparr>last_plot_sent := b\<rparr>"
    by (simp add: send_message_unfold state_of_def)
  finally show ?thesis .
qed

lemma send_message_state:
  "state_of (send_message w n args media_path) = n\<lparr>tested := True, use_http := http_selected w n\<rparr>"
  by (simp add: send_message_unfold state_of_def)

lemma send_message_cli:
  assumes "\<not> http_selected w n"
  shows "dispatches (trace_of (send_message w n args media_path)) = [CliSend args]"
    and "raised_of (send_message w n args media_path) = None"
  using assms selftest_no_dispatch [of w n]
  by (simp_all add: send_message_unfold trace_of_def raised_of_def dispatches_def)

lemma send_message_http:
  assumes "http_selected w n"
    and "gateway_url n = Some u" "u \<noteq> []" "gateway_token n = Some k" "k \<noteq> []"
    and "request_ok w (rstrip_slash u @ ''/api/v1/message/send'')"
  shows "dispatches (trace_of (send_message w n args media_path)) =
         [HttpPost (build_request w (channel n) (target n) u k (extract_message args) media_path)]"
    and "raised_of (send_message w n args media_path) = None"
  using assms(1) selftest_no_dispatch [of w n] send_http_sent [OF assms(2-6)]
  by (simp_all add: send_message_unfold trace_of_def raised_of_def dispatches_def)

lemma send_message_silent:
  assumes "http_selected w n" and "\<not> (truthy (gateway_url n) \<and> truthy (gateway_token n))"
  shows "dispatches (trace_of (send_message w n args media_path)) = []"
    and "raised_of (send_message w n args media_path) = None"
  using assms(1) selftest_no_dispatch [of w n] send_http_silent [OF assms(2)]
  by (simp_all add: send_message_unfold trace_of_def raised_of_def dispatches_def)

lemma send_message_dispatches_le:
  "length (dispatches (trace_of (send_message w n args media_path))) \<le> 1"
proof (cases "http_selected w n")
  case False
  then show ?thesis by (simp add: send_message_cli)
next
  case True
  from send_http_trace [of w n "extract_message args" media_path] True
    selftest_no_dispatch [of w n]
  show ?thesis
    by (auto simp: send_message_unfold trace_of_def dispatches_def)
qed

lemma send_message_probes:
  "probes (trace_of (send_message w n args media_path)) = probes (snd (selftest w n))"
proof (cases "http_selected w n")
  case False
  then show ?thesis by (simp add: send_message_unfold trace_of_def probes_def)
next
  case True
  from send_http_trace [of w n "extract_message args" media_path] True
  show ?thesis
    by (auto simp: send_message_unfold trace_of_def probes_def)
qed

lemma extract_message_cmd:
  assumes "c \<noteq> ''--message''" "tg \<noteq> ''--message''"
  shows "extract_message (openclaw_cmd c tg message @ rest) = message"
  using assms by (simp add: openclaw_cmd_def)

subsection \<open>The two sending methods\<close>

lemma maybe_send_calls_eq:
  assumes "config_of n = Some (c, tg)"
  shows "maybe_send_calls n now message plot_path =
     (if plot_due n now plot_path
      then [(openclaw_cmd c tg message @ [''--media'', the plot_path], plot_path)]
      else if text_due n now then [(openclaw_cmd c tg message, None)] else [])"
  using assms
  by (simp add: maybe_send_calls_def maybe_send_with_def record_call_def no_call_def)

lemma maybe_send_text_only:
  assumes "config_of n = Some (c, tg)" "text_due n now" "\<not> plot_due n now plot_path"
  shows "maybe_send w n now message plot_path =
         send_message w (n\<lparr>last_sent := now\<rparr>) (openclaw_cmd c tg message) None"
  using assms by (simp add: maybe_send_def maybe_send_with_def)

lemma maybe_send_both:
  assumes "config_of n = Some (c, tg)" "text_due n now" "plot_due n now plot_path"
  shows "maybe_send w n now message plot_path =
         send_message w (n\<lparr>last_sent := now, last_plot_sent := now\<rparr>)
           (openclaw_cmd c tg message @ [''--media'', the plot_path]) plot_path"
  using assms by (simp add: maybe_send_def maybe_send_with_def)

lemma maybe_send_plot_only:
  assumes "config_of n = Some (c, tg)" "\<not> text_due n now" "plot_due n now plot_path"
  shows "maybe_send w n now message plot_path =
         send_message w (n\<lparr>last_plot_sent := now\<rparr>)
           (openclaw_cmd c tg message @ [''--media'', the plot_path]) plot_path"
  using assms by (simp add: maybe_send_def maybe_send_with_def)

lemma maybe_send_neither:
  assumes "\<not> text_due n now" "\<not> plot_due n now plot_path"
  shows "maybe_send w n now message plot_path = (n, [], None)"
  using assms by (simp add: maybe_send_def maybe_send_with_def returned_def split: option.splits)

lemma maybe_send_dispatches_le:
  "length (dispatches (trace_of (maybe_send w n now message plot_path))) \<le> 1"
proof (cases "config_of n")
  case None
  then show ?thesis
    by (simp add: maybe_send_def maybe_send_with_def returned_def trace_of_def dispatches_def)
next
  case (Some ct)
  obtain c tg where "ct = (c, tg)" by (cases ct)
  with Some have cfg: "config_of n = Some (c, tg)" by simp
  have sm: "length (dispatches (trace_of (send_message w m args media))) \<le> 1" for m args media
    by (rule send_message_dispatches_le)
  show ?thesis
  proof (cases "text_due n now")
    case td: True
    show ?thesis
    proof (cases "plot_due n now plot_path")
      case True
      with cfg td sm show ?thesis by (simp add: maybe_send_both)
    next
      case False
      with cfg td sm show ?thesis by (simp add: maybe_send_text_only)
    qed
  next
    case td: False
    show ?thesis
    proof (cases "plot_due n now plot_path")
      case True
      with cfg td sm show ?thesis by (simp add: maybe_send_plot_only)
    next
      case False
      with td show ?thesis by (simp add: maybe_send_neither trace_of_def dispatches_def)
    qed
  qed
qed

lemma outcome_simps [simp]:
  "state_of (m, ev, ex) = m" "trace_of (m, ev, ex) = ev" "raised_of (m, ev, ex) = ex"
  by (simp_all add: state_of_def trace_of_def raised_of_def)

lemma config_of_fields:
  assumes "config_of n = Some (c, tg)"
  shows "channel n = Some c" "target n = Some tg"
  using assms by (auto simp: config_of_def split: option.splits if_splits)

lemma maybe_send_state:
  assumes "configured n"
  shows "state_of (maybe_send w n now message plot_path) =
     (if text_due n now \<or> plot_due n now plot_path
      then n\<lparr>last_sent := (if text_due n now then now else last_sent n),
             last_plot_sent := (if plot_due n now plot_path then now else last_plot_sent n),
             tested := True, use_http := http_selected w n\<rparr>
      else n)"
proof -
  from assms obtain c tg where cfg: "config_of n = Some (c, tg)"
    by (auto simp: configured_def)
  show ?thesis
  proof (cases "text_due n now")
    case td: True
    show ?thesis
    proof (cases "plot_due n now plot_path")
      case True
      with td show ?thesis
        by (simp add: maybe_send_both [OF cfg] send_message_state)
    next
      case False
      with td show ?thesis
        by (simp add: maybe_send_text_only [OF cfg] send_message_state)
    qed
  next
    case td: False
    show ?thesis
    proof (cases "plot_due n now plot_path")
      case True
      with td show ?thesis
        by (simp add: maybe_send_plot_only [OF cfg] send_message_state)
    next
      case False
      with td show ?thesis by (simp add: maybe_send_neither)
    qed
  qed
qed

lemma send_now_calls_eq:
  assumes "config_of n = Some (c, tg)"
  shows "send_now_calls n message plot_path =
     [(if truthy plot_path then openclaw_cmd c tg message @ [''--media'', the plot_path]
       else openclaw_cmd c tg message, plot_path)]"
  using assms by (simp add: send_now_calls_def send_now_with_def record_call_def Let_def)

lemma send_now_eq:
  assumes "config_of n = Some (c, tg)"
  shows "send_now w n message plot_path =
     send_message w n
       (if truthy plot_path then openclaw_cmd c tg message @ [''--media'', the plot_path]
        else openclaw_cmd c tg message) plot_path"
  using assms by (simp add: send_now_def send_now_with_def Let_def)

lemma send_message_raised:
  assumes "\<forall>u. request_ok w u"
  shows "raised_of (send_message w n args media_path) = None"
proof (cases "http_selected w n")
  case False
  then show ?thesis by (rule send_message_cli)
next
  case True
  have "snd (snd (send_http w n (extract_message args) media_path)) = None"
    using assms
    by (simp add: send_http_def Let_def split: option.splits http_result.splits)
  with True show ?thesis by (simp add: send_message_unfold)
qed

lemma dispatch_swallows_failures:
  assumes "\<forall>u. request_ok w u"
  shows "raised_of (send_now w n message plot_path) = None \<and>
         raised_of (maybe_send w n now message plot_path) = None"
proof (cases "config_of n")
  case None
  then show ?thesis
    by (simp add: send_now_def send_now_with_def maybe_send_def maybe_send_with_def returned_def)
next
  case (Some ct)
  obtain c tg where "ct = (c, tg)" by (cases ct)
  with Some have cfg: "config_of n = Some (c, tg)" by simp
  have sm: "raised_of (send_message w m args media) = None" for m args media
    by (rule send_message_raised [OF assms])
  have "raised_of (send_now w n message plot_path) = None"
    unfolding send_now_eq [OF cfg] by (rule sm)
  moreover have "raised_of (maybe_send w n now message plot_path) = None"
    using cfg sm by (simp add: maybe_send_def maybe_send_with_def returned_def Let_def)
  ultimately show ?thesis by simp
qed


lemma build_request_media:
  assumes "p \<noteq> []"
  shows "build_request w chan targ u k message (Some p) =
     \<lparr> url = rstrip_slash u @ ''/api/v1/message/send'',
       payload = [(''channel'', chan), (''target'', targ), (''message'', Some message)]
                 @ (if isfile w p then [(''mediaPath'', Some (abspath w p))] else []),
       headers = [(''Content-Type'', ''application/json''),
                  (''Authorization'', ''Bearer '' @ k)] \<rparr>"
  using assms by (simp add: build_request_def)

lemma build_request_plain:
  "build_request w chan targ u k message None =
     \<lparr> url = rstrip_slash u @ ''/api/v1/message/send'',
       payload = [(''channel'', chan), (''target'', targ), (''message'', Some message)],
       headers = [(''Content-Type'', ''application/json''),
                  (''Authorization'', ''Bearer '' @ k)] \<rparr>"
  by (simp add: build_request_def)

lemma plot_due_path: "plot_due n now (Some p) \<Longrightarrow> p \<noteq> []"
  by (simp add: plot_due_def truthy_def)

lemma send_message_paths:
  "(\<not> http_selected w n \<longrightarrow>
      dispatches (trace_of (send_message w n args media_path)) = [CliSend args]) \<and>
   (http_selected w n \<and> \<not> (truthy (gateway_url n) \<and> truthy (gateway_token n)) \<longrightarrow>
      dispatches (trace_of (send_message w n args media_path)) = []) \<and>
   (http_selected w n \<and> gateway_url n = Some u \<and> u \<noteq> [] \<and>
    gateway_token n = Some k \<and> k \<noteq> [] \<and>
    request_ok w (rstrip_slash u @ ''/api/v1/message/send'') \<longrightarrow>
      dispatches (trace_of (send_message w n args media_path)) =
        [HttpPost (build_request w (channel n) (target n) u k (extract_message args) media_path)])"
  using send_message_cli(1) [of w n args media_path]
    send_message_silent(1) [of w n args media_path]
    send_message_http(1) [of w n u k args media_path]
  by blast

subsection \<open>Sequences of calls\<close>

lemma maybe_send_trace:
  assumes cfg: "config_of n = Some (c, tg)"
  shows "trace_of (maybe_send w n now message plot_path) =
     (if plot_due n now plot_path
      then trace_of (send_message w n (openclaw_cmd c tg message @ [''--media'', the plot_path]) plot_path)
      else if text_due n now then trace_of (send_message w n (openclaw_cmd c tg message) None)
      else [])"
proof (cases "text_due n now")
  case td: True
  show ?thesis
  proof (cases "plot_due n now plot_path")
    case True
    with td show ?thesis by (simp add: maybe_send_both [OF cfg] send_message_stamp)
  next
    case False
    with td show ?thesis by (simp add: maybe_send_text_only [OF cfg] send_message_last_sent)
  qed
next
  case td: False
  show ?thesis
  proof (cases "plot_due n now plot_path")
    case True
    with td show ?thesis by (simp add: maybe_send_plot_only [OF cfg] send_message_last_plot_sent)
  next
    case False
    with td show ?thesis by (simp add: maybe_send_neither)
  qed
qed

lemma run_call_delivery:
  "tested (state_of (run_call w n c)) = (tested n \<or> dispatcher_calls n c \<noteq> []) \<and>
   use_http (state_of (run_call w n c)) =
     (if dispatcher_calls n c = [] then use_http n else http_selected w n) \<and>
   cli_available (state_of (run_call w n c)) = cli_available n"
proof (cases "config_of n")
  case None
  then show ?thesis
    by (cases c)
      (simp_all add: send_now_def send_now_with_def maybe_send_def maybe_send_with_def
        returned_def send_now_calls_def maybe_send_calls_def no_call_def)
next
  case (Some ct)
  obtain a b where "ct = (a, b)" by (cases ct)
  with Some have cfg: "config_of n = Some (a, b)" by simp
  then have conf: "configured n" by (simp add: configured_def)
  show ?thesis
  proof (cases c)
    case (SendNow message plot_path)
    then show ?thesis
      by (simp add: send_now_eq [OF cfg] send_message_state send_now_calls_eq [OF cfg])
  next
    case (MaybeSend now message plot_path)
    then show ?thesis
      by (simp add: maybe_send_state [OF conf] maybe_send_calls_eq [OF cfg])
  qed
qed

lemma run_call_probes:
  "length (probes (trace_of (run_call w n c))) \<le> (if tested n then 0 else 1)"
proof (cases "config_of n")
  case None
  then show ?thesis
    by (cases c)
      (simp_all add: send_now_def send_now_with_def maybe_send_def maybe_send_with_def
        returned_def probes_def)
next
  case (Some ct)
  obtain a b where "ct = (a, b)" by (cases ct)
  with Some have cfg: "config_of n = Some (a, b)" by simp
  have sm: "length (probes (trace_of (send_message w n args media))) \<le> (if tested n then 0 else 1)"
    for args media
    unfolding send_message_probes by (rule selftest_probes)
  show ?thesis
  proof (cases c)
    case (SendNow message plot_path)
    with sm show ?thesis by (simp add: send_now_eq [OF cfg])
  next
    case (MaybeSend now message plot_path)
    then have "trace_of (run_call w n c) = [] \<or>
        (\<exists>args media. trace_of (run_call w n c) = trace_of (send_message w n args media))"
      by (auto simp: maybe_send_trace [OF cfg])
    then show ?thesis
    proof
      assume "trace_of (run_call w n c) = []"
      then show ?thesis by (simp add: probes_def)
    next
      assume "\<exists>args media. trace_of (run_call w n c) = trace_of (send_message w n args media)"
      then obtain args media
        where "trace_of (run_call w n c) = trace_of (send_message w n args media)" by blast
      with sm [of args media] show ?thesis by simp
    qed
  qed
qed

lemma run_call_probes_tested:
  assumes "probes (trace_of (run_call w n c)) \<noteq> []"
  shows "tested (state_of (run_call w n c))"
proof (cases "dispatcher_calls n c = []")
  case False
  then show ?thesis using run_call_delivery [of w n c] by simp
next
  case True
  have "trace_of (run_call w n c) = []"
  proof (cases "config_of n")
    case None
    then show ?thesis
      by (cases c)
        (simp_all add: send_now_def send_now_with_def maybe_send_def maybe_send_with_def
          returned_def)
  next
    case (Some ct)
    obtain a b where "ct = (a, b)" by (cases ct)
    with Some have cfg: "config_of n = Some (a, b)" by simp
    show ?thesis
    proof (cases c)
      case (SendNow message plot_path)
      with True show ?thesis by (simp add: send_now_calls_eq [OF cfg])
    next
      case (MaybeSend now message plot_path)
      with True show ?thesis
        by (simp add: maybe_send_calls_eq [OF cfg] maybe_send_trace [OF cfg] split: if_splits)
    qed
  qed
  with assms show ?thesis by (simp add: probes_def)
qed

lemma run_calls_probes:
  "length (probes (snd (run_calls n cs))) \<le> (if tested n then 0 else 1)"
proof (induction cs arbitrary: n)
  case Nil
  show ?case by (simp add: probes_def)
next
  case (Cons wc cs)
  obtain w c where wc: "wc = (w, c)" by (cases wc)
  let ?r = "run_call w n c"
  have split: "probes (snd (run_calls n (wc # cs))) =
      probes (trace_of ?r) @ probes (snd (run_calls (state_of ?r) cs))"
    by (simp add: wc Let_def probes_def split: prod.splits)
  have first: "length (probes (trace_of ?r)) \<le> (if tested n then 0 else 1)"
    by (rule run_call_probes)
  have rest: "length (probes (snd (run_calls (state_of ?r) cs))) \<le>
      (if tested (state_of ?r) then 0 else 1)"
    by (rule Cons.IH)
  show ?case
  proof (cases "tested n")
    case True
    then have "tested (state_of ?r)" using run_call_delivery [of w n c] by simp
    with True first rest split show ?thesis by simp
  next
    case False
    show ?thesis
    proof (cases "probes (trace_of ?r) = []")
      case True
      with rest split False show ?thesis by (simp split: if_splits)
    next
      case np: False
      then have "tested (state_of ?r)" by (rule run_call_probes_tested)
      with rest have "probes (snd (run_calls (state_of ?r) cs)) = []" by simp
      with first False split show ?thesis by simp
    qed
  qed
qed

lemma run_calls_delivery:
  assumes "tested n"
  shows "tested (fst (run_calls n cs)) \<and> use_http (fst (run_calls n cs)) = use_http n"
  using assms
proof (induction cs arbitrary: n)
  case Nil
  then show ?case by simp
next
  case (Cons wc cs)
  obtain w c where wc: "wc = (w, c)" by (cases wc)
  let ?r = "run_call w n c"
  from Cons.prems run_call_delivery [of w n c]
  have t: "tested (state_of ?r)" and u: "use_http (state_of ?r) = use_http n"
    by (simp_all add: http_selected_tested)
  have "fst (run_calls n (wc # cs)) = fst (run_calls (state_of ?r) cs)"
    by (simp add: wc Let_def split: prod.splits)
  with Cons.IH [OF t] u show ?case by simp
qed

lemma run_calls_cli_available:
  "cli_available (fst (run_calls n cs)) = cli_available n"
proof (induction cs arbitrary: n)
  case Nil
  show ?case by simp
next
  case (Cons wc cs)
  obtain w c where wc: "wc = (w, c)" by (cases wc)
  have "fst (run_calls n (wc # cs)) = fst (run_calls (state_of (run_call w n c)) cs)"
    by (simp add: wc Let_def split: prod.splits)
  with Cons.IH [of "state_of (run_call w n c)"] run_call_delivery [of w n c]
  show ?case by simp
qed

subsection \<open>The concrete inputs\<close>

lemma cli_notifier_eq:
  "cli_notifier =
     \<lparr> interval_sec = 0, plot_interval_sec = 9999, last_sent = 0, last_plot_sent = 0,
       channel = Some ''discord'', target = Some ''channel:123'',
       gateway_url = None, gateway_token = None,
       tested = False, use_http = False, cli_available = True \<rparr>"
  by (simp add: cli_notifier_def init_def getenv_def py_or_def truthy_def)

lemma http_notifier_eq:
  "http_notifier =
     \<lparr> interval_sec = 0, plot_interval_sec = 9999, last_sent = 0, last_plot_sent = 0,
       channel = Some ''discord'', target = Some ''channel:123'',
       gateway_url = Some ''http://192.168.1.94:18789/'', gateway_token = Some ''secret'',
       tested = False, use_http = False, cli_available = False \<rparr>"
  by (simp add: http_notifier_def init_def getenv_def py_or_def truthy_def)

lemma schemeless_notifier_eq:
  "schemeless_notifier =
     \<lparr> interval_sec = 300, plot_interval_sec = 300, last_sent = 0, last_plot_sent = 0,
       channel = Some ''discord'', target = Some ''channel:123'',
       gateway_url = Some ''gateway.local'', gateway_token = Some ''secret'',
       tested = False, use_http = False, cli_available = False \<rparr>"
  by (simp add: schemeless_notifier_def init_def getenv_def py_or_def truthy_def)

lemma cli_notifier_config: "config_of cli_notifier = Some (''discord'', ''channel:123'')"
  by (simp add: cli_notifier_eq config_of_def)

lemma http_notifier_config: "config_of http_notifier = Some (''discord'', ''channel:123'')"
  by (simp add: http_notifier_eq config_of_def)

lemma cli_notifier_path: "\<not> http_selected demo_world cli_notifier"
  by (simp add: http_selected_def selftest_def selftest_cli_def Let_def cli_notifier_eq
      config_of_def demo_world_def)

lemma cli_notifier_path_failing: "http_selected failing_world cli_notifier"
  by (simp add: http_selected_def selftest_def selftest_cli_def selftest_http_def Let_def
      cli_notifier_eq config_of_def failing_world_def)

lemma http_notifier_path: "http_selected demo_world http_notifier"
  by (simp add: http_selected_def selftest_def selftest_http_def Let_def http_notifier_eq
      config_of_def)

lemma gateway_url_ok:
  "rstrip_slash ''http://192.168.1.94:18789/'' @ ''/api/v1/message/send'' =
     ''http://192.168.1.94:18789/api/v1/message/send''"
  "request_ok demo_world ''http://192.168.1.94:18789/api/v1/message/send''"
  by (simp_all add: rstrip_slash_def demo_world_def url_has_scheme_def unwrap_def py_strip_def
      is_space_def splittag_def Let_def)

lemma schemeless_url:
  "rstrip_slash ''gateway.local'' @ ''/api/v1/message/send'' =
     ''gateway.local/api/v1/message/send''"
  "\<not> request_ok demo_world ''gateway.local/api/v1/message/send''"
  "full_url ''gateway.local/api/v1/message/send'' = ''gateway.local/api/v1/message/send''"
  by (simp_all add: rstrip_slash_def demo_world_def url_has_scheme_def unwrap_def py_strip_def
      is_space_def splittag_def full_url_def Let_def)

lemma cli_notifier_due:
  "text_due cli_notifier 10000" "plot_due cli_notifier 10000 (Some ''/tmp/p.png'')"
  by (simp_all add: cli_notifier_eq text_due_def plot_due_def truthy_def)

lemma http_notifier_due:
  "text_due http_notifier 10000" "plot_due http_notifier 10000 (Some ''/tmp/p.png'')"
  by (simp_all add: http_notifier_eq text_due_def plot_due_def truthy_def)

lemma http_notifier_gateway:
  "gateway_url http_notifier = Some ''http://192.168.1.94:18789/''"
  "gateway_token http_notifier = Some ''secret''"
  by (simp_all add: http_notifier_eq)

lemma throttled_notifier_facts:
  "config_of throttled_notifier = Some (''discord'', ''channel:123'')"
  "plot_due throttled_notifier 10000 (Some ''/tmp/p.png'')"
  "\<not> text_due throttled_notifier 10000"
  "\<not> http_selected demo_world throttled_notifier"
  "last_sent throttled_notifier = 5000"
  by (simp_all add: throttled_notifier_def cli_notifier_eq config_of_def plot_due_def
      text_due_def truthy_def http_selected_def selftest_def selftest_cli_def Let_def
      demo_world_def)

lemma cli_notifier_fields:
  "interval_sec cli_notifier = 0" "plot_interval_sec cli_notifier = 9999"
  "last_sent cli_notifier = 0" "last_plot_sent cli_notifier = 0"
  by (simp_all add: cli_notifier_eq)

lemma slow_notifier_eq:
  "slow_notifier =
     \<lparr> interval_sec = 300, plot_interval_sec = 300, last_sent = 0, last_plot_sent = 0,
       channel = Some ''discord'', target = Some ''channel:123'',
       gateway_url = None, gateway_token = None,
       tested = False, use_http = False, cli_available = True \<rparr>"
  by (simp add: slow_notifier_def init_def getenv_def py_or_def truthy_def)

lemma slow_notifier_facts:
  "configured slow_notifier"
  "text_due slow_notifier 10000"
  "http_selected failing_world slow_notifier"
  "\<not> (truthy (gateway_url slow_notifier) \<and> truthy (gateway_token slow_notifier))"
  "interval_sec slow_notifier = 300"
  by (simp_all add: slow_notifier_eq configured_def config_of_def text_due_def truthy_def
      http_selected_def selftest_def selftest_cli_def selftest_http_def Let_def
      failing_world_def)

lemma silent_notifier_eq:
  "silent_notifier =
     \<lparr> interval_sec = 0, plot_interval_sec = 9999, last_sent = 0, last_plot_sent = 0,
       channel = Some ''discord'', target = Some ''channel:123'',
       gateway_url = None, gateway_token = None,
       tested = False, use_http = False, cli_available = False \<rparr>"
  by (simp add: silent_notifier_def init_def getenv_def py_or_def truthy_def)

lemma long_interval_notifier_eq:
  "long_interval_notifier =
     \<lparr> interval_sec = 0, plot_interval_sec = 2000000000, last_sent = 0, last_plot_sent = 0,
       channel = Some ''discord'', target = Some ''channel:123'',
       gateway_url = None, gateway_token = None,
       tested = False, use_http = False, cli_available = True \<rparr>"
  by (simp add: long_interval_notifier_def init_def getenv_def py_or_def truthy_def)

lemmas evaluate =
  maybe_send_def maybe_send_with_def send_message_def send_http_def build_request_def
  selftest_def selftest_cli_def selftest_http_def fallback_diag_def Let_def config_of_def
  configured_def truthy_def text_due_def plot_due_def openclaw_cmd_def probe_args_def
  rstrip_slash_def demo_world_def missing_file_world_def dispatches_def
  url_has_scheme_def unwrap_def py_strip_def is_space_def splittag_def

lemma silent_notifier_facts:
  "config_of silent_notifier = Some (''discord'', ''channel:123'')"
  "text_due silent_notifier 10000"
  "plot_due silent_notifier 10000 (Some ''/tmp/p.png'')"
  "http_selected demo_world silent_notifier"
  "\<not> (truthy (gateway_url silent_notifier) \<and> truthy (gateway_token silent_notifier))"
  by (simp_all add: silent_notifier_eq config_of_def text_due_def plot_due_def truthy_def
      http_selected_def selftest_def selftest_http_def Let_def)

lemma throttled_http_notifier_facts:
  "config_of throttled_http_notifier = Some (''discord'', ''channel:123'')"
  "plot_due throttled_http_notifier 10000 (Some ''/tmp/p.png'')"
  "\<not> text_due throttled_http_notifier 10000"
  "http_selected demo_world throttled_http_notifier"
  "gateway_url throttled_http_notifier = Some ''http://192.168.1.94:18789/''"
  "gateway_token throttled_http_notifier = Some ''secret''"
  by (simp_all add: throttled_http_notifier_def http_notifier_eq config_of_def text_due_def
      plot_due_def truthy_def http_selected_def selftest_def selftest_http_def Let_def)

lemma demo_world_files: "isfile demo_world p" "abspath demo_world p = p"
  by (simp_all add: demo_world_def)

subsection \<open>A notifier without channel or target\<close>

text \<open>
  Claim C2. For every notifier whose channel or target is absent, every call of
  \<^verbatim>\<open>send_now\<close> and every call of \<^verbatim>\<open>maybe_send\<close> returns at once: the notifier is left as it
  was (no throttle timestamp changes, the self-test does not run), no effect at all is
  performed (no subprocess is spawned, no HTTP request is made, nothing is printed), and
  nothing is raised.
\<close>

theorem unconfigured_is_inert:
  assumes "\<not> configured n"
  shows "send_now w n message plot_path = (n, [], None) \<and>
         maybe_send w n now message plot_path = (n, [], None)"
proof -
  from assms have "config_of n = None" by (cases "config_of n") (auto simp: configured_def)
  then show ?thesis
    by (simp add: send_now_def maybe_send_def send_now_with_def maybe_send_with_def
        returned_def)
qed

text \<open>
  A notifier built while the variables of the channel, or those of the target, are unset or
  empty is such a notifier.
\<close>

lemma init_unconfigured:
  assumes "(getenv environ ''OPENCLAW_PROGRESS_CHANNEL'' None = None \<and>
            getenv environ ''OPENCLAW_DEFAULT_DM_CHANNEL'' None = None) \<or>
           (getenv environ ''OPENCLAW_PROGRESS_TARGET'' None = None \<and>
            getenv environ ''OPENCLAW_DEFAULT_DM_TARGET'' None = None)"
  shows "\<not> configured (init environ which interval plot_interval)"
  using assms
  by (auto simp: configured_def config_of_def init_def py_or_def truthy_def split: option.splits)

theorem unconfigured_is_inert_witness:
  "\<not> configured unconfigured_notifier \<and>
   send_now demo_world unconfigured_notifier ''hello'' (Some ''/tmp/p.png'') =
     (unconfigured_notifier, [], None) \<and>
   maybe_send demo_world unconfigured_notifier 1000 ''hello'' (Some ''/tmp/p.png'') =
     (unconfigured_notifier, [], None)"
proof -
  have h: "\<not> configured unconfigured_notifier"
    unfolding unconfigured_notifier_def by (rule init_unconfigured) (simp add: getenv_def)
  from h unconfigured_is_inert [OF h] show ?thesis by blast
qed

subsection \<open>The channel classification\<close>

text \<open>
  Claim C9. \<^verbatim>\<open>_detect_channel_type\<close> is a total function from an optional channel name to
  one of the three styles: telegram is table; discord, slack and whatsapp are rich; signal
  and imessage are plain; every other channel name, and an absent channel, is rich.
\<close>

theorem detect_channel_type_table:
  "detect_channel_type (Some ''telegram'') = Table \<and>
   detect_channel_type (Some ''discord'') = Rich \<and>
   detect_channel_type (Some ''slack'') = Rich \<and>
   detect_channel_type (Some ''whatsapp'') = Rich \<and>
   detect_channel_type (Some ''signal'') = Plain \<and>
   detect_channel_type (Some ''imessage'') = Plain \<and>
   detect_channel_type None = Rich \<and>
   (c \<notin> {''telegram'', ''signal'', ''imessage''} \<longrightarrow> detect_channel_type (Some c) = Rich) \<and>
   detect_channel_type chan \<in> {Rich, Table, Plain}"
  by (cases "detect_channel_type chan") (auto simp: detect_channel_type_def)

theorem detect_channel_type_table_witness:
  "''somenewthing'' \<notin> {''telegram'', ''signal'', ''imessage''} \<and>
   detect_channel_type (Some ''somenewthing'') = Rich"
  using detect_channel_type_table [of "''somenewthing''" None] by simp

subsection \<open>One dispatch for each call of the throttle\<close>

text \<open>
  Claim C1, as amended. For every configured notifier and every call
  \<^verbatim>\<open>maybe_send(message, plot_path)\<close> at most one dispatch (one CLI invocation or one HTTP
  POST) is performed, and the dispatcher is called at most once. When the text interval
  and the plot interval have both elapsed, both timestamps are set to the current time and
  the dispatcher is called exactly once, with the message and the plot path; what that
  call sends depends on the delivery path: on the CLI path exactly one invocation, whose
  arguments carry \<^verbatim>\<open>--message\<close> with the message and \<^verbatim>\<open>--media\<close> with the plot path; on the
  HTTP path without gateway URL or token nothing (the silent mode); on the HTTP path with
  both, once the request is built, exactly one POST, whose payload carries the message
  (channel and target being other than the string \<^verbatim>\<open>--message\<close>) and carries the absolute
  path of the plot as \<^verbatim>\<open>mediaPath\<close> exactly when the plot is an existing file.
\<close>

theorem maybe_send_single_dispatch:
  assumes cfg: "config_of n = Some (c, tg)"
    and r: "r = maybe_send w n now message plot_path"
  shows "length (dispatches (trace_of r)) \<le> 1 \<and>
         length (maybe_send_calls n now message plot_path) \<le> 1 \<and>
         (text_due n now \<and> plot_due n now plot_path \<and> plot_path = Some p \<longrightarrow>
            maybe_send_calls n now message plot_path =
              [([''openclaw'', ''message'', ''send'', ''--channel'', c, ''--target'', tg,
                 ''--message'', message, ''--media'', p], Some p)] \<and>
            last_sent (state_of r) = now \<and> last_plot_sent (state_of r) = now \<and>
            (\<not> http_selected w n \<longrightarrow>
               dispatches (trace_of r) =
                 [CliSend [''openclaw'', ''message'', ''send'', ''--channel'', c,
                           ''--target'', tg, ''--message'', message, ''--media'', p]]) \<and>
            (http_selected w n \<and>
             \<not> (truthy (gateway_url n) \<and> truthy (gateway_token n)) \<longrightarrow>
               dispatches (trace_of r) = []) \<and>
            (http_selected w n \<and> gateway_url n = Some u \<and> u \<noteq> [] \<and>
             gateway_token n = Some k \<and> k \<noteq> [] \<and>
             request_ok w (rstrip_slash u @ ''/api/v1/message/send'') \<and>
             c \<noteq> ''--message'' \<and> tg \<noteq> ''--message'' \<longrightarrow>
               dispatches (trace_of r) =
                 [HttpPost
                    \<lparr> url = rstrip_slash u @ ''/api/v1/message/send'',
                      payload = [(''channel'', Some c), (''target'', Some tg),
                                 (''message'', Some message)]
                                @ (if isfile w p then [(''mediaPath'', Some (abspath w p))]
                                   else []),
                      headers = [(''Content-Type'', ''application/json''),
                                 (''Authorization'', ''Bearer '' @ k)] \<rparr>]))"
proof -
  have one: "length (dispatches (trace_of r)) \<le> 1"
    unfolding r by (rule maybe_send_dispatches_le)
  have calls: "length (maybe_send_calls n now message plot_path) \<le> 1"
    by (simp add: maybe_send_calls_eq [OF cfg])
  have both: ?thesis if td: "text_due n now" and pd: "plot_due n now plot_path"
    and pp: "plot_path = Some p"
  proof -
    let ?cmd = "openclaw_cmd c tg message @ [''--media'', p]"
    let ?m = "n\<lparr>last_sent := now, last_plot_sent := now\<rparr>"
    have p: "p \<noteq> []" using pd pp by (simp add: plot_due_path)
    have cmd: "?cmd = [''openclaw'', ''message'', ''send'', ''--channel'', c, ''--target'', tg,
                 ''--message'', message, ''--media'', p]"
      by (simp add: openclaw_cmd_def)
    have req: "r = send_message w ?m ?cmd (Some p)"
      using maybe_send_both [OF cfg td pd] pp r by simp
    have st: "last_sent (state_of r) = now \<and> last_plot_sent (state_of r) = now"
      unfolding req by (simp add: send_message_state)
    have m: "http_selected w ?m = http_selected w n" "gateway_url ?m = gateway_url n"
      "gateway_token ?m = gateway_token n" "channel ?m = Some c" "target ?m = Some tg"
      using config_of_fields [OF cfg] by simp_all
    have ex: "extract_message ?cmd = message" if "c \<noteq> ''--message''" "tg \<noteq> ''--message''"
      using that by (rule extract_message_cmd)
    note paths = send_message_paths [of w ?m ?cmd "Some p" u k, folded req, unfolded m]
    have cli: "dispatches (trace_of r) = [CliSend ?cmd]" if "\<not> http_selected w n"
      using paths that by blast
    have silent: "dispatches (trace_of r) = []"
      if "http_selected w n" "\<not> (truthy (gateway_url n) \<and> truthy (gateway_token n))"
      using paths that by blast
    have http: "dispatches (trace_of r) =
        [HttpPost (build_request w (Some c) (Some tg) u k message (Some p))]"
      if "http_selected w n" "gateway_url n = Some u" "u \<noteq> []" "gateway_token n = Some k"
        "k \<noteq> []" "request_ok w (rstrip_slash u @ ''/api/v1/message/send'')"
        "c \<noteq> ''--message''" "tg \<noteq> ''--message''"
      using paths that ex by simp
    from one calls st cli silent http pd pp cfg show ?thesis
      unfolding build_request_media [OF p] cmd
      by (simp add: maybe_send_calls_eq [OF cfg] openclaw_cmd_def)
  qed
  from one calls both show ?thesis by blast
qed

text \<open>
  The amended claim at a notifier on the CLI path, at one in silent mode and at one on the
  HTTP path with an existing plot file.
\<close>

theorem maybe_send_single_dispatch_witness:
  "config_of cli_notifier = Some (''discord'', ''channel:123'') \<and>
   text_due cli_notifier 10000 \<and> plot_due cli_notifier 10000 (Some ''/tmp/p.png'') \<and>
   \<not> http_selected demo_world cli_notifier \<and>
   last_sent (state_of (maybe_send demo_world cli_notifier 10000 ''first'' (Some ''/tmp/p.png''))) = 10000 \<and>
   last_plot_sent (state_of (maybe_send demo_world cli_notifier 10000 ''first'' (Some ''/tmp/p.png''))) = 10000 \<and>
   dispatches (trace_of (maybe_send demo_world cli_notifier 10000 ''first'' (Some ''/tmp/p.png''))) =
     [CliSend [''openclaw'', ''message'', ''send'', ''--channel'', ''discord'',
               ''--target'', ''channel:123'', ''--message'', ''first'',
               ''--media'', ''/tmp/p.png'']] \<and>
   config_of silent_notifier = Some (''discord'', ''channel:123'') \<and>
   text_due silent_notifier 10000 \<and> plot_due silent_notifier 10000 (Some ''/tmp/p.png'') \<and>
   http_selected demo_world silent_notifier \<and>
   \<not> (truthy (gateway_url silent_notifier) \<and> truthy (gateway_token silent_notifier)) \<and>
   dispatches (trace_of (maybe_send demo_world silent_notifier 10000 ''first'' (Some ''/tmp/p.png''))) = [] \<and>
   config_of http_notifier = Some (''discord'', ''channel:123'') \<and>
   text_due http_notifier 10000 \<and> plot_due http_notifier 10000 (Some ''/tmp/p.png'') \<and>
   http_selected demo_world http_notifier \<and>
   dispatches (trace_of (maybe_send demo_world http_notifier 10000 ''first'' (Some ''/tmp/p.png''))) =
     [HttpPost
        \<lparr> url = ''http://192.168.1.94:18789/api/v1/message/send'',
          payload = [(''channel'', Some ''discord''), (''target'', Some ''channel:123''),
                     (''message'', Some ''first''), (''mediaPath'', Some ''/tmp/p.png'')],
          headers = [(''Content-Type'', ''application/json''),
                     (''Authorization'', ''Bearer secret'')] \<rparr>]"
proof -
  note a = maybe_send_single_dispatch [OF cli_notifier_config refl,
      where w = demo_world and now = 10000 and message = "''first''"
        and plot_path = "Some ''/tmp/p.png''" and p = "''/tmp/p.png''"]
  note s = maybe_send_single_dispatch [OF silent_notifier_facts(1) refl,
      where w = demo_world and now = 10000 and message = "''first''"
        and plot_path = "Some ''/tmp/p.png''" and p = "''/tmp/p.png''"]
  note b = maybe_send_single_dispatch [OF http_notifier_config refl,
      where w = demo_world and now = 10000 and message = "''first''"
        and plot_path = "Some ''/tmp/p.png''" and p = "''/tmp/p.png''"
        and u = "''http://192.168.1.94:18789/''" and k = "''secret''"]
  from a cli_notifier_due cli_notifier_path
  have 1: "last_sent (state_of (maybe_send demo_world cli_notifier 10000 ''first'' (Some ''/tmp/p.png''))) = 10000 \<and>
   last_plot_sent (state_of (maybe_send demo_world cli_notifier 10000 ''first'' (Some ''/tmp/p.png''))) = 10000 \<and>
   dispatches (trace_of (maybe_send demo_world cli_notifier 10000 ''first'' (Some ''/tmp/p.png''))) =
     [CliSend [''openclaw'', ''message'', ''send'', ''--channel'', ''discord'',
               ''--target'', ''channel:123'', ''--message'', ''first'',
               ''--media'', ''/tmp/p.png'']]"
    by blast
  from s silent_notifier_facts
  have 2: "dispatches (trace_of (maybe_send demo_world silent_notifier 10000 ''first'' (Some ''/tmp/p.png''))) = []"
    by blast
  from b http_notifier_due http_notifier_path http_notifier_gateway gateway_url_ok
    demo_world_files
  have 3: "dispatches (trace_of (maybe_send demo_world http_notifier 10000 ''first'' (Some ''/tmp/p.png''))) =
     [HttpPost
        \<lparr> url = ''http://192.168.1.94:18789/api/v1/message/send'',
          payload = [(''channel'', Some ''discord''), (''target'', Some ''channel:123''),
                     (''message'', Some ''first''), (''mediaPath'', Some ''/tmp/p.png'')],
          headers = [(''Content-Type'', ''application/json''),
                     (''Authorization'', ''Bearer secret'')] \<rparr>]"
    by simp
  from 1 2 3 cli_notifier_config http_notifier_config cli_notifier_due http_notifier_due
    cli_notifier_path http_notifier_path silent_notifier_facts
  show ?thesis by blast
qed

text \<open>
  The claim as it was stated, exactly one dispatch carrying message and attachment for every
  configured notifier, fails in two ways, both by design. A notifier built on a node
  without the program and without a gateway, both kinds due: the call prints the warning
  of the self-test and performs no dispatch at all. A notifier on the HTTP path and a plot
  path that names no file: the POST carries the message and no attachment.
\<close>

theorem maybe_send_single_dispatch_counterexample:
  "configured silent_notifier \<and>
   text_due silent_notifier 1762300000 \<and>
   plot_due silent_notifier 1762300000 (Some ''/tmp/p.png'') \<and>
   trace_of (maybe_send demo_world silent_notifier 1762300000 ''first'' (Some ''/tmp/p.png'')) =
     [Diag NoDelivery] \<and>
   length (dispatches (trace_of
     (maybe_send demo_world silent_notifier 1762300000 ''first'' (Some ''/tmp/p.png'')))) = 0 \<and>
   configured http_notifier \<and>
   text_due http_notifier 1762300000 \<and>
   plot_due http_notifier 1762300000 (Some ''/tmp/p.png'') \<and>
   dispatches (trace_of
     (maybe_send missing_file_world http_notifier 1762300000 ''first'' (Some ''/tmp/p.png''))) =
     [HttpPost
        \<lparr> url = ''http://192.168.1.94:18789/api/v1/message/send'',
          payload = [(''channel'', Some ''discord''), (''target'', Some ''channel:123''),
                     (''message'', Some ''first'')],
          headers = [(''Content-Type'', ''application/json''),
                     (''Authorization'', ''Bearer secret'')] \<rparr>]"
  by (simp add: evaluate silent_notifier_eq http_notifier_eq)

subsection \<open>Text and plots are throttled independently\<close>

text \<open>
  Claim C3, as amended. A configured notifier with text interval 0 and plot interval L, and
  two successive calls \<^verbatim>\<open>maybe_send(msg, plot_path)\<close> with a non-empty plot path, the first at
  a time t1 at which the plot is due (\<open>L \<le> t1 - last_plot_sent\<close>, on a fresh notifier
  \<open>L \<le> t1\<close>) and which is not before the last text, the second at a time t2 with
  \<open>t1 \<le> t2 < t1 + L\<close>: the dispatcher is called exactly twice, with the attachment on
  the first call only. On the CLI path these are exactly two invocations, the first with
  \<^verbatim>\<open>--media\<close>, the second without; on the HTTP path with gateway URL and token, the
  requests built, exactly two POSTs, the first with \<^verbatim>\<open>mediaPath\<close> exactly when the plot is
  an existing file, the second without; on the HTTP path without gateway URL or token no
  dispatch at all.
\<close>

theorem independent_throttling:
  assumes cfg: "config_of n = Some (c, tg)"
    and zero: "interval_sec n = 0"
    and p: "p \<noteq> []"
    and text1: "last_sent n \<le> t1"
    and plot1: "real_of_int (plot_interval_sec n) \<le> t1 - last_plot_sent n"
    and mono: "t1 \<le> t2"
    and within: "t2 - t1 < real_of_int (plot_interval_sec n)"
    and r1: "r1 = maybe_send w1 n t1 message1 (Some p)"
    and r2: "r2 = maybe_send w2 (state_of r1) t2 message2 (Some p)"
  shows "maybe_send_calls n t1 message1 (Some p) @
           maybe_send_calls (state_of r1) t2 message2 (Some p) =
           [([''openclaw'', ''message'', ''send'', ''--channel'', c, ''--target'', tg,
              ''--message'', message1, ''--media'', p], Some p),
            ([''openclaw'', ''message'', ''send'', ''--channel'', c, ''--target'', tg,
              ''--message'', message2], None)] \<and>
         (\<not> http_selected w1 n \<longrightarrow>
            dispatches (trace_of r1 @ trace_of r2) =
              [CliSend [''openclaw'', ''message'', ''send'', ''--channel'', c,
                        ''--target'', tg, ''--message'', message1, ''--media'', p],
               CliSend [''openclaw'', ''message'', ''send'', ''--channel'', c,
                        ''--target'', tg, ''--message'', message2]]) \<and>
         (http_selected w1 n \<and>
          \<not> (truthy (gateway_url n) \<and> truthy (gateway_token n)) \<longrightarrow>
            dispatches (trace_of r1 @ trace_of r2) = []) \<and>
         (http_selected w1 n \<and> gateway_url n = Some u \<and> u \<noteq> [] \<and>
          gateway_token n = Some k \<and> k \<noteq> [] \<and>
          request_ok w1 (rstrip_slash u @ ''/api/v1/message/send'') \<and>
          request_ok w2 (rstrip_slash u @ ''/api/v1/message/send'') \<and>
          c \<noteq> ''--message'' \<and> tg \<noteq> ''--message'' \<longrightarrow>
            dispatches (trace_of r1 @ trace_of r2) =
              [HttpPost
                 \<lparr> url = rstrip_slash u @ ''/api/v1/message/send'',
                   payload = [(''channel'', Some c), (''target'', Some tg),
                              (''message'', Some message1)]
                             @ (if isfile w1 p then [(''mediaPath'', Some (abspath w1 p))]
                                else []),
                   headers = [(''Content-Type'', ''application/json''),
                              (''Authorization'', ''Bearer '' @ k)] \<rparr>,
               HttpPost
                 \<lparr> url = rstrip_slash u @ ''/api/v1/message/send'',
                   payload = [(''channel'', Some c), (''target'', Some tg),
                              (''message'', Some message2)],
                   headers = [(''Content-Type'', ''application/json''),
                              (''Authorization'', ''Bearer '' @ k)] \<rparr>])"
proof -
  let ?cmd1 = "openclaw_cmd c tg message1 @ [''--media'', p]"
  let ?cmd2 = "openclaw_cmd c tg message2"
  have td1: "text_due n t1" using zero text1 by (simp add: text_due_def)
  have pd1: "plot_due n t1 (Some p)" using p plot1 by (simp add: plot_due_def truthy_def)
  have conf: "configured n" using cfg by (simp add: configured_def)
  define n1 where "n1 = state_of r1"
  have n1: "n1 = n\<lparr>last_sent := t1, last_plot_sent := t1, tested := True,
                   use_http := http_selected w1 n\<rparr>"
    unfolding n1_def r1 using td1 pd1 by (simp add: maybe_send_state [OF conf])
  have cfg1: "config_of n1 = Some (c, tg)" using cfg by (simp add: n1)
  have td2: "text_due n1 t2" using zero mono by (simp add: text_due_def n1)
  have pd2: "\<not> plot_due n1 t2 (Some p)" using within by (simp add: plot_due_def n1)
  have calls: "maybe_send_calls n t1 message1 (Some p) @ maybe_send_calls n1 t2 message2 (Some p) =
           [(?cmd1, Some p), (?cmd2, None)]"
    using td1 pd1 td2 pd2 by (simp add: maybe_send_calls_eq [OF cfg] maybe_send_calls_eq [OF cfg1])
  let ?m1 = "n\<lparr>last_sent := t1, last_plot_sent := t1\<rparr>"
  let ?m2 = "n1\<lparr>last_sent := t2\<rparr>"
  have e1: "r1 = send_message w1 ?m1 ?cmd1 (Some p)"
    unfolding r1 using maybe_send_both [OF cfg td1 pd1] by simp
  have e2: "r2 = send_message w2 ?m2 ?cmd2 None"
    unfolding r2 n1_def [symmetric] by (rule maybe_send_text_only [OF cfg1 td2 pd2])
  have m1: "http_selected w1 ?m1 = http_selected w1 n" "gateway_url ?m1 = gateway_url n"
    "gateway_token ?m1 = gateway_token n" "channel ?m1 = Some c" "target ?m1 = Some tg"
    using config_of_fields [OF cfg] by simp_all
  have m2: "http_selected w2 ?m2 = http_selected w1 n" "gateway_url ?m2 = gateway_url n"
    "gateway_token ?m2 = gateway_token n" "channel ?m2 = Some c" "target ?m2 = Some tg"
    using config_of_fields [OF cfg] by (simp_all add: http_selected_tested n1)
  note p1 = send_message_paths [of w1 ?m1 ?cmd1 "Some p" u k, folded e1, unfolded m1]
  note p2 = send_message_paths [of w2 ?m2 ?cmd2 None u k, folded e2, unfolded m2]
  have app: "dispatches (trace_of r1 @ trace_of r2) =
      dispatches (trace_of r1) @ dispatches (trace_of r2)"
    by (simp add: dispatches_def)
  have ex1: "extract_message ?cmd1 = message1" if "c \<noteq> ''--message''" "tg \<noteq> ''--message''"
    using that by (rule extract_message_cmd)
  have ex2: "extract_message ?cmd2 = message2" if "c \<noteq> ''--message''" "tg \<noteq> ''--message''"
    using extract_message_cmd [OF that, of message2 "[]"] by simp
  have cli: "dispatches (trace_of r1 @ trace_of r2) = [CliSend ?cmd1, CliSend ?cmd2]"
    if "\<not> http_selected w1 n"
    using p1 p2 that unfolding app by simp
  have silent: "dispatches (trace_of r1 @ trace_of r2) = []"
    if "http_selected w1 n" "\<not> (truthy (gateway_url n) \<and> truthy (gateway_token n))"
    using p1 p2 that unfolding app by simp
  have http: "dispatches (trace_of r1 @ trace_of r2) =
      [HttpPost (build_request w1 (Some c) (Some tg) u k message1 (Some p)),
       HttpPost (build_request w2 (Some c) (Some tg) u k message2 None)]"
    if "http_selected w1 n" "gateway_url n = Some u" "u \<noteq> []" "gateway_token n = Some k"
      "k \<noteq> []" "request_ok w1 (rstrip_slash u @ ''/api/v1/message/send'')"
      "request_ok w2 (rstrip_slash u @ ''/api/v1/message/send'')"
      "c \<noteq> ''--message''" "tg \<noteq> ''--message''"
    using p1 p2 that ex1 ex2 unfolding app by simp
  from calls cli silent http show ?thesis
    unfolding n1_def build_request_media [OF p] build_request_plain
    by (simp add: openclaw_cmd_def)
qed

text \<open>The amended claim on a fresh notifier on the CLI path, L = 9999.\<close>

theorem independent_throttling_witness:
  "config_of cli_notifier = Some (''discord'', ''channel:123'') \<and>
   interval_sec cli_notifier = 0 \<and> ''/tmp/p.png'' \<noteq> [] \<and>
   last_sent cli_notifier \<le> 10000 \<and>
   real_of_int (plot_interval_sec cli_notifier) \<le> 10000 - last_plot_sent cli_notifier \<and>
   (10000::real) \<le> 10060 \<and>
   10060 - 10000 < real_of_int (plot_interval_sec cli_notifier) \<and>
   \<not> http_selected demo_world cli_notifier \<and>
   dispatches
     (trace_of (maybe_send demo_world cli_notifier 10000 ''first'' (Some ''/tmp/p.png'')) @
      trace_of (maybe_send failing_world
        (state_of (maybe_send demo_world cli_notifier 10000 ''first'' (Some ''/tmp/p.png'')))
        10060 ''second'' (Some ''/tmp/p.png''))) =
     [CliSend [''openclaw'', ''message'', ''send'', ''--channel'', ''discord'',
               ''--target'', ''channel:123'', ''--message'', ''first'',
               ''--media'', ''/tmp/p.png''],
      CliSend [''openclaw'', ''message'', ''send'', ''--channel'', ''discord'',
               ''--target'', ''channel:123'', ''--message'', ''second'']]"
proof -
  have h: "interval_sec cli_notifier = 0" "''/tmp/p.png'' \<noteq> []"
    "last_sent cli_notifier \<le> 10000"
    "real_of_int (plot_interval_sec cli_notifier) \<le> 10000 - last_plot_sent cli_notifier"
    "(10000::real) \<le> 10060"
    "10060 - 10000 < real_of_int (plot_interval_sec cli_notifier)"
    by (simp_all add: cli_notifier_fields)
  from independent_throttling [OF cli_notifier_config h refl refl,
      where ?w1.0 = demo_world and ?w2.0 = failing_world
        and ?message1.0 = "''first''" and ?message2.0 = "''second''"]
    cli_notifier_path
  have "dispatches
     (trace_of (maybe_send demo_world cli_notifier 10000 ''first'' (Some ''/tmp/p.png'')) @
      trace_of (maybe_send failing_world
        (state_of (maybe_send demo_world cli_notifier 10000 ''first'' (Some ''/tmp/p.png'')))
        10060 ''second'' (Some ''/tmp/p.png''))) =
     [CliSend [''openclaw'', ''message'', ''send'', ''--channel'', ''discord'',
               ''--target'', ''channel:123'', ''--message'', ''first'',
               ''--media'', ''/tmp/p.png''],
      CliSend [''openclaw'', ''message'', ''send'', ''--channel'', ''discord'',
               ''--target'', ''channel:123'', ''--message'', ''second'']]"
    by blast
  with h cli_notifier_config cli_notifier_path show ?thesis by blast
qed

text \<open>
  The claim as it was stated fails in two ways, both by design. A fresh notifier with
  L = 2000000000, more than the clock reads: the timestamp 0 of a plot never sent is less
  than L seconds back, the plot is not due at the first call, and neither of the two
  dispatches has the attachment. A fresh notifier in silent mode: the two calls perform no
  dispatch.
\<close>

theorem independent_throttling_counterexample:
  "configured long_interval_notifier \<and>
   interval_sec long_interval_notifier = 0 \<and>
   plot_interval_sec long_interval_notifier = 2000000000 \<and>
   (1762300060::real) - 1762300000 < 2000000000 \<and>
   dispatches
     (trace_of (maybe_send demo_world long_interval_notifier 1762300000 ''first''
                  (Some ''/tmp/p.png'')) @
      trace_of (maybe_send demo_world
        (state_of (maybe_send demo_world long_interval_notifier 1762300000 ''first''
                     (Some ''/tmp/p.png'')))
        1762300060 ''second'' (Some ''/tmp/p.png''))) =
     [CliSend [''openclaw'', ''message'', ''send'', ''--channel'', ''discord'',
               ''--target'', ''channel:123'', ''--message'', ''first''],
      CliSend [''openclaw'', ''message'', ''send'', ''--channel'', ''discord'',
               ''--target'', ''channel:123'', ''--message'', ''second'']] \<and>
   configured silent_notifier \<and>
   interval_sec silent_notifier = 0 \<and>
   plot_interval_sec silent_notifier = 9999 \<and>
   dispatches
     (trace_of (maybe_send demo_world silent_notifier 1762300000 ''first''
                  (Some ''/tmp/p.png'')) @
      trace_of (maybe_send demo_world
        (state_of (maybe_send demo_world silent_notifier 1762300000 ''first''
                     (Some ''/tmp/p.png'')))
        1762300060 ''second'' (Some ''/tmp/p.png''))) = []"
  by (simp add: evaluate long_interval_notifier_eq silent_notifier_eq)

subsection \<open>The branch where only the plot is due\<close>

text \<open>
  Claim C4, as amended. When the plot path is present, the plot interval has elapsed and
  the text interval has not, \<^verbatim>\<open>last_plot_sent\<close> is set to the current time, \<^verbatim>\<open>last_sent\<close> is
  left unchanged, and the dispatcher is called once with the same message text and the
  plot path. On the CLI path the invocation carries the message and \<^verbatim>\<open>--media\<close> with the
  plot path; on the HTTP path with gateway URL and token, the request built, the POST
  carries the message (channel and target being other than the string \<^verbatim>\<open>--message\<close>) and
  carries the absolute path of the plot as \<^verbatim>\<open>mediaPath\<close> exactly when the plot is an
  existing file; on the HTTP path without gateway URL or token nothing is sent.
\<close>

theorem plot_only_branch:
  assumes cfg: "config_of n = Some (c, tg)"
    and pd: "plot_due n now (Some p)" and td: "\<not> text_due n now"
    and r: "r = maybe_send w n now message (Some p)"
  shows "maybe_send_calls n now message (Some p) =
           [([''openclaw'', ''message'', ''send'', ''--channel'', c, ''--target'', tg,
              ''--message'', message, ''--media'', p], Some p)] \<and>
         last_plot_sent (state_of r) = now \<and>
         last_sent (state_of r) = last_sent n \<and>
         (\<not> http_selected w n \<longrightarrow>
            dispatches (trace_of r) =
              [CliSend [''openclaw'', ''message'', ''send'', ''--channel'', c,
                        ''--target'', tg, ''--message'', message, ''--media'', p]]) \<and>
         (http_selected w n \<and>
          \<not> (truthy (gateway_url n) \<and> truthy (gateway_token n)) \<longrightarrow>
            dispatches (trace_of r) = []) \<and>
         (http_selected w n \<and> gateway_url n = Some u \<and> u \<noteq> [] \<and>
          gateway_token n = Some k \<and> k \<noteq> [] \<and>
          request_ok w (rstrip_slash u @ ''/api/v1/message/send'') \<and>
          c \<noteq> ''--message'' \<and> tg \<noteq> ''--message'' \<longrightarrow>
            dispatches (trace_of r) =
              [HttpPost
                 \<lparr> url = rstrip_slash u @ ''/api/v1/message/send'',
                   payload = [(''channel'', Some c), (''target'', Some tg),
                              (''message'', Some message)]
                             @ (if isfile w p then [(''mediaPath'', Some (abspath w p))]
                                else []),
                   headers = [(''Content-Type'', ''application/json''),
                              (''Authorization'', ''Bearer '' @ k)] \<rparr>])"
proof -
  let ?cmd = "openclaw_cmd c tg message @ [''--media'', p]"
  let ?m = "n\<lparr>last_plot_sent := now\<rparr>"
  have p: "p \<noteq> []" using pd by (rule plot_due_path)
  have cmd: "?cmd = [''openclaw'', ''message'', ''send'', ''--channel'', c, ''--target'', tg,
               ''--message'', message, ''--media'', p]"
    by (simp add: openclaw_cmd_def)
  have req: "r = send_message w ?m ?cmd (Some p)"
    using maybe_send_plot_only [OF cfg td pd] r by simp
  have st: "last_plot_sent (state_of r) = now \<and> last_sent (state_of r) = last_sent n"
    unfolding req by (simp add: send_message_state)
  have m: "http_selected w ?m = http_selected w n" "gateway_url ?m = gateway_url n"
    "gateway_token ?m = gateway_token n" "channel ?m = Some c" "target ?m = Some tg"
    using config_of_fields [OF cfg] by simp_all
  have ex: "extract_message ?cmd = message" if "c \<noteq> ''--message''" "tg \<noteq> ''--message''"
    using that by (rule extract_message_cmd)
  note paths = send_message_paths [of w ?m ?cmd "Some p" u k, folded req, unfolded m]
  have cli: "dispatches (trace_of r) = [CliSend ?cmd]" if "\<not> http_selected w n"
    using paths that by blast
  have silent: "dispatches (trace_of r) = []"
    if "http_selected w n" "\<not> (truthy (gateway_url n) \<and> truthy (gateway_token n))"
    using paths that by blast
  have http: "dispatches (trace_of r) =
      [HttpPost (build_request w (Some c) (Some tg) u k message (Some p))]"
    if "http_selected w n" "gateway_url n = Some u" "u \<noteq> []" "gateway_token n = Some k"
      "k \<noteq> []" "request_ok w (rstrip_slash u @ ''/api/v1/message/send'')"
      "c \<noteq> ''--message''" "tg \<noteq> ''--message''"
    using paths that ex by simp
  from st cli silent http pd show ?thesis
    unfolding build_request_media [OF p] cmd
    by (simp add: maybe_send_calls_eq [OF cfg] openclaw_cmd_def)
qed

text \<open>The amended claim on the CLI path and on the HTTP path with an existing plot file.\<close>

theorem plot_only_branch_witness:
  "config_of throttled_notifier = Some (''discord'', ''channel:123'') \<and>
   plot_due throttled_notifier 10000 (Some ''/tmp/p.png'') \<and>
   \<not> text_due throttled_notifier 10000 \<and>
   \<not> http_selected demo_world throttled_notifier \<and>
   last_plot_sent (state_of (maybe_send demo_world throttled_notifier 10000 ''step 7''
     (Some ''/tmp/p.png''))) = 10000 \<and>
   last_sent (state_of (maybe_send demo_world throttled_notifier 10000 ''step 7''
     (Some ''/tmp/p.png''))) = 5000 \<and>
   dispatches (trace_of (maybe_send demo_world throttled_notifier 10000 ''step 7''
     (Some ''/tmp/p.png''))) =
     [CliSend [''openclaw'', ''message'', ''send'', ''--channel'', ''discord'',
               ''--target'', ''channel:123'', ''--message'', ''step 7'',
               ''--media'', ''/tmp/p.png'']] \<and>
   config_of throttled_http_notifier = Some (''discord'', ''channel:123'') \<and>
   plot_due throttled_http_notifier 10000 (Some ''/tmp/p.png'') \<and>
   \<not> text_due throttled_http_notifier 10000 \<and>
   http_selected demo_world throttled_http_notifier \<and>
   dispatches (trace_of (maybe_send demo_world throttled_http_notifier 10000 ''step 7''
     (Some ''/tmp/p.png''))) =
     [HttpPost
        \<lparr> url = ''http://192.168.1.94:18789/api/v1/message/send'',
          payload = [(''channel'', Some ''discord''), (''target'', Some ''channel:123''),
                     (''message'', Some ''step 7''), (''mediaPath'', Some ''/tmp/p.png'')],
          headers = [(''Content-Type'', ''application/json''),
                     (''Authorization'', ''Bearer secret'')] \<rparr>]"
proof -
  from plot_only_branch [OF throttled_notifier_facts(1) throttled_notifier_facts(2)
      throttled_notifier_facts(3) refl, where w = demo_world and message = "''step 7''"]
    throttled_notifier_facts
  have 1: "last_plot_sent (state_of (maybe_send demo_world throttled_notifier 10000 ''step 7''
     (Some ''/tmp/p.png''))) = 10000 \<and>
   last_sent (state_of (maybe_send demo_world throttled_notifier 10000 ''step 7''
     (Some ''/tmp/p.png''))) = 5000 \<and>
   dispatches (trace_of (maybe_send demo_world throttled_notifier 10000 ''step 7''
     (Some ''/tmp/p.png''))) =
     [CliSend [''openclaw'', ''message'', ''send'', ''--channel'', ''discord'',
               ''--target'', ''channel:123'', ''--message'', ''step 7'',
               ''--media'', ''/tmp/p.png'']]"
    by simp
  from plot_only_branch [OF throttled_http_notifier_facts(1) throttled_http_notifier_facts(2)
      throttled_http_notifier_facts(3) refl, where w = demo_world and message = "''step 7''"
      and u = "''http://192.168.1.94:18789/''" and k = "''secret''"]
    throttled_http_notifier_facts gateway_url_ok demo_world_files
  have 2: "dispatches (trace_of (maybe_send demo_world throttled_http_notifier 10000 ''step 7''
     (Some ''/tmp/p.png''))) =
     [HttpPost
        \<lparr> url = ''http://192.168.1.94:18789/api/v1/message/send'',
          payload = [(''channel'', Some ''discord''), (''target'', Some ''channel:123''),
                     (''message'', Some ''step 7''), (''mediaPath'', Some ''/tmp/p.png'')],
          headers = [(''Content-Type'', ''application/json''),
                     (''Authorization'', ''Bearer secret'')] \<rparr>]"
    by simp
  from 1 2 throttled_notifier_facts throttled_http_notifier_facts show ?thesis by blast
qed

text \<open>
  The claim as it was stated, the dispatch carries the attachment, fails by design on the
  HTTP path when the plot path names no file: \<^verbatim>\<open>_send_http\<close> adds \<^verbatim>\<open>mediaPath\<close> under
  \<^verbatim>\<open>os.path.isfile\<close> only, and the POST carries the message alone.
\<close>

theorem plot_only_branch_counterexample:
  "configured throttled_http_notifier \<and>
   plot_due throttled_http_notifier 10000 (Some ''/tmp/p.png'') \<and>
   \<not> text_due throttled_http_notifier 10000 \<and>
   dispatches (trace_of
     (maybe_send missing_file_world throttled_http_notifier 10000 ''step 7''
        (Some ''/tmp/p.png''))) =
     [HttpPost
        \<lparr> url = ''http://192.168.1.94:18789/api/v1/message/send'',
          payload = [(''channel'', Some ''discord''), (''target'', Some ''channel:123''),
                     (''message'', Some ''step 7'')],
          headers = [(''Content-Type'', ''application/json''),
                     (''Authorization'', ''Bearer secret'')] \<rparr>]"
  by (simp add: evaluate throttled_http_notifier_def http_notifier_eq)

subsection \<open>Sending at once\<close>

text \<open>
  Claim C7. On a configured notifier \<^verbatim>\<open>send_now(message, plot_path)\<close> calls the dispatcher
  exactly once, whatever the timestamps are; it leaves both timestamps as they were, and
  its effects and its result do not depend on them (the same call on the notifier with
  any other timestamps performs the same effects). On the CLI path the call is one
  invocation with the command, on the HTTP path with a gateway one POST.
\<close>

theorem send_now_bypasses_throttle:
  assumes cfg: "config_of n = Some (c, tg)"
    and r: "r = send_now w n message plot_path"
    and cmd: "cmd = (if truthy plot_path then openclaw_cmd c tg message @ [''--media'', the plot_path]
                     else openclaw_cmd c tg message)"
  shows "send_now_calls n message plot_path = [(cmd, plot_path)] \<and>
         last_sent (state_of r) = last_sent n \<and>
         last_plot_sent (state_of r) = last_plot_sent n \<and>
         send_now w (n\<lparr>last_sent := a, last_plot_sent := b\<rparr>) message plot_path =
           ((state_of r)\<lparr>last_sent := a, last_plot_sent := b\<rparr>, trace_of r, raised_of r) \<and>
         (\<not> http_selected w n \<longrightarrow> dispatches (trace_of r) = [CliSend cmd]) \<and>
         (http_selected w n \<and> gateway_url n = Some u \<and> u \<noteq> [] \<and>
          gateway_token n = Some k \<and> k \<noteq> [] \<and>
          request_ok w (rstrip_slash u @ ''/api/v1/message/send'') \<and>
          c \<noteq> ''--message'' \<and> tg \<noteq> ''--message'' \<longrightarrow>
            dispatches (trace_of r) =
              [HttpPost (build_request w (Some c) (Some tg) u k message plot_path)])"
proof -
  have req: "r = send_message w n cmd plot_path"
    unfolding r cmd by (rule send_now_eq [OF cfg])
  have calls: "send_now_calls n message plot_path = [(cmd, plot_path)]"
    unfolding cmd by (rule send_now_calls_eq [OF cfg])
  have st: "last_sent (state_of r) = last_sent n \<and> last_plot_sent (state_of r) = last_plot_sent n"
    unfolding req by (simp add: send_message_state)
  have cfg': "config_of (n\<lparr>last_sent := a, last_plot_sent := b\<rparr>) = Some (c, tg)"
    using cfg by simp
  have indep: "send_now w (n\<lparr>last_sent := a, last_plot_sent := b\<rparr>) message plot_path =
           ((state_of r)\<lparr>last_sent := a, last_plot_sent := b\<rparr>, trace_of r, raised_of r)"
    unfolding send_now_eq [OF cfg'] req cmd by (rule send_message_stamp)
  have cli: "dispatches (trace_of r) = [CliSend cmd]" if "\<not> http_selected w n"
    unfolding req using that by (simp add: send_message_cli)
  have ex: "extract_message cmd = message" if "c \<noteq> ''--message''" "tg \<noteq> ''--message''"
    using that extract_message_cmd [of c tg message "[]"]
      extract_message_cmd [of c tg message "[''--media'', the plot_path]"]
    by (simp add: cmd)
  have http: "dispatches (trace_of r) =
      [HttpPost (build_request w (Some c) (Some tg) u k message plot_path)]"
    if "http_selected w n" "gateway_url n = Some u" "u \<noteq> []" "gateway_token n = Some k"
      "k \<noteq> []" "request_ok w (rstrip_slash u @ ''/api/v1/message/send'')"
      "c \<noteq> ''--message''" "tg \<noteq> ''--message''"
    unfolding req using that config_of_fields [OF cfg] ex
    by (simp add: send_message_http [where u = u and k = k])
  from calls st indep cli http show ?thesis by blast
qed

theorem send_now_bypasses_throttle_witness:
  "config_of throttled_notifier = Some (''discord'', ''channel:123'') \<and>
   \<not> text_due throttled_notifier 10000 \<and>
   \<not> http_selected demo_world throttled_notifier \<and>
   send_now_calls throttled_notifier ''done'' None =
     [(openclaw_cmd ''discord'' ''channel:123'' ''done'', None)] \<and>
   dispatches (trace_of (send_now demo_world throttled_notifier ''done'' None)) =
     [CliSend (openclaw_cmd ''discord'' ''channel:123'' ''done'')] \<and>
   last_sent (state_of (send_now demo_world throttled_notifier ''done'' None)) = 5000"
  using send_now_bypasses_throttle [OF throttled_notifier_facts(1) refl refl,
      where w = demo_world and message = "''done''" and plot_path = None]
    throttled_notifier_facts
  by (simp add: truthy_def)

subsection \<open>Timestamps advance on the decision to send\<close>

text \<open>
  Claim C10. For every configured notifier and every world, so also one in which the
  subprocess raises, the POST fails or the HTTP path has no gateway: after \<^verbatim>\<open>maybe_send\<close>
  the text timestamp is the current time exactly when the text was due, and the plot
  timestamp is the current time exactly when the plot was due; the dispatcher is called on
  a notifier that already carries the new timestamps; and a later call within the interval
  finds the text, respectively the plot, not due: the throttle window is consumed whether
  the delivery succeeded or not.
\<close>

theorem timestamps_advance_on_decision:
  assumes cfg: "configured n" and r: "r = maybe_send w n now message plot_path"
  shows "last_sent (state_of r) = (if text_due n now then now else last_sent n) \<and>
         last_plot_sent (state_of r) =
           (if plot_due n now plot_path then now else last_plot_sent n) \<and>
         maybe_send_with (\<lambda>m args media. Some (last_sent m, last_plot_sent m)) (\<lambda>m. None)
             n now message plot_path =
           (if text_due n now \<or> plot_due n now plot_path
            then Some (if text_due n now then now else last_sent n,
                       if plot_due n now plot_path then now else last_plot_sent n)
            else None) \<and>
         (text_due n now \<and> now' - now < real_of_int (interval_sec n) \<longrightarrow>
            \<not> text_due (state_of r) now') \<and>
         (plot_due n now plot_path \<and> now' - now < real_of_int (plot_interval_sec n) \<longrightarrow>
            \<not> plot_due (state_of r) now' plot_path')"
proof -
  from cfg obtain c tg where c: "config_of n = Some (c, tg)"
    by (auto simp: configured_def)
  have s: "state_of r = (if text_due n now \<or> plot_due n now plot_path
      then n\<lparr>last_sent := (if text_due n now then now else last_sent n),
             last_plot_sent := (if plot_due n now plot_path then now else last_plot_sent n),
             tested := True, use_http := http_selected w n\<rparr>
      else n)"
    unfolding r by (rule maybe_send_state [OF cfg])
  have a: "last_sent (state_of r) = (if text_due n now then now else last_sent n)"
    by (simp add: s)
  have b: "last_plot_sent (state_of r) =
           (if plot_due n now plot_path then now else last_plot_sent n)"
    by (simp add: s)
  have i: "interval_sec (state_of r) = interval_sec n"
    "plot_interval_sec (state_of r) = plot_interval_sec n"
    by (simp_all add: s)
  have d: "maybe_send_with (\<lambda>m args media. Some (last_sent m, last_plot_sent m)) (\<lambda>m. None)
             n now message plot_path =
           (if text_due n now \<or> plot_due n now plot_path
            then Some (if text_due n now then now else last_sent n,
                       if plot_due n now plot_path then now else last_plot_sent n)
            else None)"
    using c by (simp add: maybe_send_with_def)
  have e: "\<not> text_due (state_of r) now'"
    if "text_due n now" "now' - now < real_of_int (interval_sec n)"
    using that a i by (simp add: text_due_def)
  have f: "\<not> plot_due (state_of r) now' plot_path'"
    if "plot_due n now plot_path" "now' - now < real_of_int (plot_interval_sec n)"
    using that b i by (simp add: plot_due_def)
  from a b d e f show ?thesis by blast
qed

theorem timestamps_advance_on_decision_witness:
  "configured slow_notifier \<and> text_due slow_notifier 10000 \<and>
   10060 - 10000 < real_of_int (interval_sec slow_notifier) \<and>
   dispatches (trace_of (maybe_send failing_world slow_notifier 10000 ''hello'' None)) = [] \<and>
   last_sent (state_of (maybe_send failing_world slow_notifier 10000 ''hello'' None)) = 10000 \<and>
   \<not> text_due (state_of (maybe_send failing_world slow_notifier 10000 ''hello'' None)) 10060"
proof -
  have w: "(10060::real) - 10000 < real_of_int (interval_sec slow_notifier)"
    by (simp add: slow_notifier_facts)
  have pd: "\<not> plot_due slow_notifier 10000 None"
    by (simp add: plot_due_def truthy_def)
  from slow_notifier_facts(1) obtain c tg where cfg: "config_of slow_notifier = Some (c, tg)"
    by (auto simp: configured_def)
  have hs: "http_selected failing_world (slow_notifier\<lparr>last_sent := 10000\<rparr>)"
    by (simp add: slow_notifier_facts)
  have gw: "\<not> (truthy (gateway_url (slow_notifier\<lparr>last_sent := 10000\<rparr>)) \<and>
               truthy (gateway_token (slow_notifier\<lparr>last_sent := 10000\<rparr>)))"
    by (simp add: slow_notifier_eq truthy_def)
  have silent: "dispatches (trace_of (maybe_send failing_world slow_notifier 10000 ''hello'' None)) = []"
    unfolding maybe_send_text_only [OF cfg slow_notifier_facts(2) pd]
    by (rule send_message_silent(1) [OF hs gw])
  from timestamps_advance_on_decision [OF slow_notifier_facts(1) refl,
      where w = failing_world and now = 10000 and now' = 10060 and message = "''hello''"
        and plot_path = None]
    slow_notifier_facts(2) w silent slow_notifier_facts(1)
  show ?thesis by simp
qed

subsection \<open>The self-test runs once\<close>

text \<open>
  Claim C6. Over any sequence of \<^verbatim>\<open>send_now\<close> and \<^verbatim>\<open>maybe_send\<close> calls, whatever the world
  answers, the dry run of the self-test is made at most once, and not at all on a notifier
  that is already tested; once tested, a notifier stays tested and its delivery state
  (\<^verbatim>\<open>_use_http\<close>, \<^verbatim>\<open>_cli_available\<close>) does not change any more. The flag is set lazily: a
  call leaves the notifier tested exactly when it was tested before or the call reached
  the dispatcher.
\<close>

theorem selftest_runs_once:
  "length (probes (snd (run_calls n cs))) \<le> (if tested n then 0 else 1) \<and>
   (tested n \<longrightarrow> tested (fst (run_calls n cs)) \<and>
                 use_http (fst (run_calls n cs)) = use_http n \<and>
                 probes (snd (run_calls n cs)) = []) \<and>
   cli_available (fst (run_calls n cs)) = cli_available n \<and>
   tested (state_of (run_call w n c)) = (tested n \<or> dispatcher_calls n c \<noteq> [])"
  using run_calls_probes [of n cs] run_calls_delivery [of n cs]
    run_calls_cli_available [of n cs] run_call_delivery [of w n c]
  by auto

theorem selftest_runs_once_witness:
  "tested (state_of (send_now demo_world cli_notifier ''start'' None)) \<and>
   probes (snd (run_calls (state_of (send_now demo_world cli_notifier ''start'' None))
     [(failing_world, MaybeSend 10000 ''a'' (Some ''/tmp/p.png'')),
      (demo_world, SendNow ''b'' None)])) = [] \<and>
   use_http (fst (run_calls (state_of (send_now demo_world cli_notifier ''start'' None))
     [(failing_world, MaybeSend 10000 ''a'' (Some ''/tmp/p.png'')),
      (demo_world, SendNow ''b'' None)])) = False \<and>
   length (probes (snd (run_calls cli_notifier
     [(demo_world, SendNow ''start'' None),
      (failing_world, MaybeSend 10000 ''a'' (Some ''/tmp/p.png'')),
      (demo_world, SendNow ''b'' None)]))) \<le> 1"
proof -
  let ?n = "state_of (send_now demo_world cli_notifier ''start'' None)"
  have s: "?n = cli_notifier\<lparr>tested := True, use_http := False\<rparr>"
    using cli_notifier_path
    by (simp add: send_now_eq [OF cli_notifier_config] send_message_state)
  then have t: "tested ?n" and u: "use_http ?n = False" by simp_all
  from selftest_runs_once [where n = ?n and cs = "[(failing_world, MaybeSend 10000 ''a'' (Some ''/tmp/p.png'')),
      (demo_world, SendNow ''b'' None)]"] t u
  have 1: "probes (snd (run_calls ?n
     [(failing_world, MaybeSend 10000 ''a'' (Some ''/tmp/p.png'')),
      (demo_world, SendNow ''b'' None)])) = [] \<and>
   use_http (fst (run_calls ?n
     [(failing_world, MaybeSend 10000 ''a'' (Some ''/tmp/p.png'')),
      (demo_world, SendNow ''b'' None)])) = False"
    by simp
  from selftest_runs_once [where n = cli_notifier and cs = "[(demo_world, SendNow ''start'' None),
      (failing_world, MaybeSend 10000 ''a'' (Some ''/tmp/p.png'')),
      (demo_world, SendNow ''b'' None)]"]
  have 2: "length (probes (snd (run_calls cli_notifier
     [(demo_world, SendNow ''start'' None),
      (failing_world, MaybeSend 10000 ''a'' (Some ''/tmp/p.png'')),
      (demo_world, SendNow ''b'' None)]))) \<le> 1"
    by (simp add: cli_notifier_eq)
  from t 1 2 show ?thesis by blast
qed

subsection \<open>An exception that escapes the dispatcher\<close>

text \<open>
  Claim C5 says that the dispatcher never raises. On a node without the \<^verbatim>\<open>openclaw\<close>
  program, with the gateway URL \<^verbatim>\<open>gateway.local\<close> (no scheme) and a token, the HTTP path is
  selected, and \<^verbatim>\<open>urllib.request.Request\<close>, which \<^verbatim>\<open>_send_http\<close> calls before its \<^verbatim>\<open>try\<close>,
  raises \<^verbatim>\<open>ValueError\<close>: the exception escapes \<^verbatim>\<open>send_now\<close> and \<^verbatim>\<open>maybe_send\<close>. (What the
  \<^verbatim>\<open>try\<close> blocks do catch is lemma \<open>dispatch_swallows_failures\<close>: when the request can be
  built, nothing escapes, whatever the subprocess and the POST do.)
\<close>

theorem send_raises_on_schemeless_gateway:
  "raised_of (send_now demo_world schemeless_notifier ''hello'' None) =
     Some (ValueError (''unknown url type: '' @
       [CHR 0x27] @ ''gateway.local/api/v1/message/send'' @ [CHR 0x27])) \<and>
   raised_of (maybe_send demo_world schemeless_notifier 1000 ''hello'' None) =
     Some (ValueError (''unknown url type: '' @
       [CHR 0x27] @ ''gateway.local/api/v1/message/send'' @ [CHR 0x27]))"
  using schemeless_url
  by (simp add: send_now_def send_now_with_def maybe_send_def maybe_send_with_def
      send_message_def send_http_def build_request_def selftest_def selftest_http_def
      Let_def schemeless_notifier_eq config_of_def truthy_def text_due_def plot_due_def
      openclaw_cmd_def py_repr_def)

subsection \<open>The process wrapper\<close>



end
